theory Spec2Isabelle
  imports Complex_Main "HOL-Library.AList"
begin

section \<open>Penetration dice (dice.mjs)\<close>

text \<open>
  The random source is modelled by forced die results: every singlet reads the raw d10
  results it will see from a list of its own, in order. A singlet whose list ends while it is
  still exploding has not returned (\<open>None\<close>). The three singlets of a triplet are started
  together by the source, so each of them gets its own list; a penetration sequence gets one
  triple of lists for every triplet it may roll.
\<close>

record singletRoll =
  raw :: int
  modified :: int

record singlet =
  total :: int
  rolls :: "singletRoll list"
  exploded :: bool
  explosionChain :: "int list"

record triplet =
  singlets :: "singlet list"
  attackerPV :: int
  defenderAV :: int
  targetNumber :: int
  singletsPassed :: nat
  penetrations :: int
  allPassed :: bool

record penetrationResult =
  triplets :: "triplet list"
  totalPenetrations :: int
  initialPV :: int
  finalPV :: int

text \<open>The \<open>while (continueRolling)\<close> loop of \<open>rollQudSinglet\<close>, one iteration per die.\<close>

fun rollQudSinglet_loop ::
  "int list \<Rightarrow> int \<Rightarrow> singletRoll list \<Rightarrow> (int \<times> singletRoll list) option" where
  "rollQudSinglet_loop [] tot rs = None"
| "rollQudSinglet_loop (dieResult # dice) tot rs =
     (let m = dieResult - 2;
          rs' = rs @ [\<lparr>raw = dieResult, modified = m\<rparr>];
          tot' = tot + m
      in if m = 8 then rollQudSinglet_loop dice tot' rs' else Some (tot', rs'))"

definition rollQudSinglet :: "int list \<Rightarrow> singlet option" where
  "rollQudSinglet dice =
     (case rollQudSinglet_loop dice 0 [] of
        None \<Rightarrow> None
      | Some (tot, rs) \<Rightarrow>
          Some \<lparr>total = tot, rolls = rs, exploded = (length rs > 1),
                explosionChain = map raw rs\<rparr>)"

text \<open>
  The part of \<open>rollQudTriplet\<close> after the three singlets have been awaited: the count of
  passing singlets and the record that is returned.
\<close>

definition evaluateTriplet :: "int \<Rightarrow> int \<Rightarrow> singlet list \<Rightarrow> triplet" where
  "evaluateTriplet pv av ss =
     (let passed = length (filter (\<lambda>s. total s + pv \<ge> av) ss)
      in \<lparr>singlets = ss, attackerPV = pv, defenderAV = av, targetNumber = av,
          singletsPassed = passed,
          penetrations = (if passed > 0 then 1 else 0),
          allPassed = (passed = 3)\<rparr>)"

definition rollQudTriplet ::
  "int \<Rightarrow> int \<Rightarrow> int list \<times> int list \<times> int list \<Rightarrow> triplet option" where
  "rollQudTriplet pv av dice =
     (case dice of (d1, d2, d3) \<Rightarrow>
        (case rollQudSinglet d1 of None \<Rightarrow> None | Some s1 \<Rightarrow>
        (case rollQudSinglet d2 of None \<Rightarrow> None | Some s2 \<Rightarrow>
        (case rollQudSinglet d3 of None \<Rightarrow> None | Some s3 \<Rightarrow>
           Some (evaluateTriplet pv av [s1, s2, s3])))))"

text \<open>
  The \<open>while (continueRolling && currentPV > 0)\<close> loop of \<open>resolvePenetration\<close>. The
  arguments after the armor value are the loop variables; the last one is the supply of forced
  dice, one triple per triplet.
\<close>

fun resolvePenetration_loop ::
  "int \<Rightarrow> int \<Rightarrow> int \<Rightarrow> triplet list \<Rightarrow> bool \<Rightarrow> (int list \<times> int list \<times> int list) list
     \<Rightarrow> (int \<times> int \<times> triplet list) option" where
  "resolvePenetration_loop av currentPV totalPen ts continueRolling dice =
     (if continueRolling \<and> currentPV > 0 then
        (case dice of
           [] \<Rightarrow> None
         | d # rest \<Rightarrow>
            (case rollQudTriplet currentPV av d of
               None \<Rightarrow> None
             | Some t \<Rightarrow>
                 if allPassed t
                 then resolvePenetration_loop av (currentPV - 2) (totalPen + penetrations t)
                        (ts @ [t]) continueRolling rest
                 else resolvePenetration_loop av currentPV (totalPen + penetrations t)
                        (ts @ [t]) False rest))
      else Some (currentPV, totalPen, ts))"

definition resolvePenetration ::
  "int \<Rightarrow> int \<Rightarrow> (int list \<times> int list \<times> int list) list \<Rightarrow> penetrationResult option" where
  "resolvePenetration pv av dice =
     (case resolvePenetration_loop av pv 0 [] True dice of
        None \<Rightarrow> None
      | Some (currentPV, totalPen, ts) \<Rightarrow>
          Some \<lparr>triplets = ts, totalPenetrations = totalPen, initialPV = pv,
                finalPV = currentPV\<rparr>)"

section \<open>Configuration (config.mjs)\<close>

record partProperties =
  mortal :: bool
  appendage :: bool
  mobility :: int
  usuallyOn :: "string option"
  attackChance :: "int option"

record partTypeConfig =
  pt_name :: string
  canEquip :: bool
  slotType :: string
  canWield :: bool
  variants :: "string list"
  properties :: partProperties

text \<open>\<open>CAVESOFQUD.bodyPartTypes\<close>, in the order of the source.\<close>

definition bodyPartTypes :: "(string \<times> partTypeConfig) list" where
  "bodyPartTypes =
  [(''Body'',
      \<lparr>pt_name = ''Body'', canEquip = True, slotType = ''body'', canWield = False,
       variants = [''Body'', ''Chassis'', ''Torso'', ''Core'', ''Shell'', ''Carapace''],
       properties = \<lparr>mortal = True, appendage = False, mobility = 0, usuallyOn = None,
                     attackChance = None\<rparr>\<rparr>),
   (''Head'',
      \<lparr>pt_name = ''Head'', canEquip = True, slotType = ''head'', canWield = False,
       variants = [''Head'', ''Skull'', ''Control Unit'', ''Nuclear Protrusion'', ''Ear'', ''Head Section'', ''Brain Case''],
       properties = \<lparr>mortal = False, appendage = True, mobility = 0, usuallyOn = Some ''Body'',
                     attackChance = None\<rparr>\<rparr>),
   (''Face'',
      \<lparr>pt_name = ''Face'', canEquip = True, slotType = ''face'', canWield = False,
       variants = [''Face'', ''Sensory Nodule'', ''Eye'', ''Antennae'', ''Sensor Array'', ''Optics''],
       properties = \<lparr>mortal = False, appendage = False, mobility = 0, usuallyOn = Some ''Head'',
                     attackChance = None\<rparr>\<rparr>),
   (''Back'',
      \<lparr>pt_name = ''Back'', canEquip = True, slotType = ''back'', canWield = False,
       variants = [''Back'', ''Case'', ''Membrane'', ''Blanket'', ''Carapace Back'', ''Shell''],
       properties = \<lparr>mortal = False, appendage = False, mobility = 0, usuallyOn = Some ''Body'',
                     attackChance = None\<rparr>\<rparr>),
   (''Arm'',
      \<lparr>pt_name = ''Arm'', canEquip = True, slotType = ''arm'', canWield = False,
       variants = [''Arm'', ''Robo-Arm'', ''Armbone'', ''Stalk'', ''Tentacle Arm'', ''Limb''],
       properties = \<lparr>mortal = False, appendage = True, mobility = 5, usuallyOn = Some ''Body'',
                     attackChance = None\<rparr>\<rparr>),
   (''Hand'',
      \<lparr>pt_name = ''Hand'', canEquip = True, slotType = ''hand'', canWield = True,
       variants = [''Hand'', ''Manipulator'', ''Claw'', ''Pincer'', ''Tentacle'', ''Paw'', ''Hoof''],
       properties = \<lparr>mortal = False, appendage = True, mobility = 0, usuallyOn = Some ''Arm'',
                     attackChance = Some 15\<rparr>\<rparr>),
   (''BurrowingClaw'',
      \<lparr>pt_name = ''Burrowing Claw'', canEquip = True, slotType = ''hand'', canWield = True,
       variants = [''Burrowing Claw''],
       properties = \<lparr>mortal = False, appendage = True, mobility = 0, usuallyOn = Some ''Arm'',
                     attackChance = Some 15\<rparr>\<rparr>),
   (''Feet'',
      \<lparr>pt_name = ''Feet'', canEquip = True, slotType = ''feet'', canWield = False,
       variants = [''Feet'', ''Footbones'', ''Legs'', ''Support Struts'', ''Hooves'', ''Pads'', ''Talons''],
       properties = \<lparr>mortal = False, appendage = True, mobility = 10, usuallyOn = Some ''Body'',
                     attackChance = None\<rparr>\<rparr>),
   (''FloatingNearby'',
      \<lparr>pt_name = ''Floating Nearby'', canEquip = True, slotType = ''floating'', canWield = False,
       variants = [''Floating Nearby''],
       properties = \<lparr>mortal = False, appendage = False, mobility = 0, usuallyOn = Some ''Body'',
                     attackChance = None\<rparr>\<rparr>),
   (''Tail'',
      \<lparr>pt_name = ''Tail'', canEquip = False, slotType = ''tail'', canWield = False,
       variants = [''Tail'', ''Tail Spine'', ''Stinger Tail''],
       properties = \<lparr>mortal = False, appendage = True, mobility = 0, usuallyOn = Some ''Body'',
                     attackChance = None\<rparr>\<rparr>),
   (''Fin'',
      \<lparr>pt_name = ''Fin'', canEquip = False, slotType = ''fin'', canWield = False,
       variants = [''Fin'', ''Dorsal Fin'', ''Tail Fin''],
       properties = \<lparr>mortal = False, appendage = True, mobility = 0, usuallyOn = Some ''Body'',
                     attackChance = None\<rparr>\<rparr>),
   (''Roots'',
      \<lparr>pt_name = ''Roots'', canEquip = True, slotType = ''roots'', canWield = False,
       variants = [''Roots'', ''Support Hyphae'', ''Mulch'', ''Stakes''],
       properties = \<lparr>mortal = False, appendage = False, mobility = 0, usuallyOn = Some ''Body'',
                     attackChance = None\<rparr>\<rparr>),
   (''Tread'',
      \<lparr>pt_name = ''Tread'', canEquip = True, slotType = ''tread'', canWield = False,
       variants = [''Tread'', ''Wheels'', ''Tracks''],
       properties = \<lparr>mortal = False, appendage = False, mobility = 15, usuallyOn = Some ''Body'',
                     attackChance = None\<rparr>\<rparr>),
   (''FungalOutcrop'',
      \<lparr>pt_name = ''Fungal Outcrop'', canEquip = False, slotType = ''fungal'', canWield = False,
       variants = [''Fungal Outcrop'', ''Lichen Patch'', ''Mushroom Cap''],
       properties = \<lparr>mortal = False, appendage = False, mobility = 0, usuallyOn = None,
                     attackChance = None\<rparr>\<rparr>),
   (''IcyOutcrop'',
      \<lparr>pt_name = ''Icy Outcrop'', canEquip = False, slotType = ''icy'', canWield = False,
       variants = [''Icy Outcrop'', ''Frost Formation'', ''Ice Shard''],
       properties = \<lparr>mortal = False, appendage = False, mobility = 0, usuallyOn = None,
                     attackChance = None\<rparr>\<rparr>)]"

section \<open>Body hierarchy (bodyparts.mjs)\<close>

text \<open>
  A body-parts object is a JavaScript object keyed by part id. It is modelled as an association
  list in insertion order: \<open>map_of\<close> reads a key, \<open>AList.update\<close> writes one (in place
  when the key exists, at the end otherwise) and \<open>AList.delete\<close> deletes one. The fields
  \<open>bp_naturalArmor\<close>, \<open>bp_hasWings\<close> and \<open>bp_offhandChance\<close> are the ones the actor's
  derivation writes onto the parts later; a fresh part does not have them.
\<close>

record naturalArmor =
  na_av :: int
  na_source :: string

record bodyPart =
  bp_id :: string
  bp_type :: string
  bp_variant :: string
  bp_laterality :: string
  bp_parent :: "string option"
  bp_children :: "string list"
  bp_equipment :: "string option"
  bp_properties :: partProperties
  bp_chimeraOrigin :: bool
  bp_naturalArmor :: "naturalArmor option"
  bp_hasWings :: "bool option"
  bp_offhandChance :: "int option"

type_synonym bodyParts = "(string \<times> bodyPart) list"

text \<open>
  What the module reads from outside the actor: its own id counter, the clock that
  \<open>Date.now()\<close> reads, and the draws behind \<open>Math.floor(Math.random() * k)\<close>, given as
  naturals of which a k-way choice takes the next one modulo k (an exhausted supply reads 0).
\<close>

record world =
  bodyPartIdCounter :: nat
  now :: nat
  randoms :: "nat list"

datatype error = TypeError

text \<open>Decimal rendering of numbers inside template strings.\<close>

function showNat :: "nat \<Rightarrow> string" where
  "showNat n =
     (if n < 10 then [''0123456789'' ! n]
      else showNat (n div 10) @ [''0123456789'' ! (n mod 10)])"
  by pat_completeness auto
termination
  by (relation "measure id") auto

definition showInt :: "int \<Rightarrow> string" where
  "showInt i = (if i < 0 then ''-'' @ showNat (nat (- i)) else showNat (nat i))"

definition randomBelow :: "nat \<Rightarrow> world \<Rightarrow> nat \<times> world" where
  "randomBelow k w =
     (case randoms w of
        [] \<Rightarrow> (0, w)
      | d # ds \<Rightarrow> (d mod k, w\<lparr>randoms := ds\<rparr>))"

definition generateBodyPartId :: "world \<Rightarrow> string \<times> world" where
  "generateBodyPartId w =
     (''bp_'' @ showNat (now w) @ ''_'' @ showNat (bodyPartIdCounter w),
      w\<lparr>bodyPartIdCounter := Suc (bodyPartIdCounter w)\<rparr>)"

text \<open>\<open>variant || partType.variants[0]\<close>: a missing or empty variant takes the first one listed.\<close>

definition createBodyPart ::
  "string \<Rightarrow> string option \<Rightarrow> string \<Rightarrow> string option \<Rightarrow> bool \<Rightarrow> world
     \<Rightarrow> bodyPart option \<times> world" where
  "createBodyPart type variant laterality parentId chimeraOrigin w =
     (case map_of bodyPartTypes type of
        None \<Rightarrow> (None, w)
      | Some partType \<Rightarrow>
          (case generateBodyPartId w of (newId, w') \<Rightarrow>
            (Some \<lparr>bp_id = newId, bp_type = type,
                   bp_variant = (case variant of
                                   None \<Rightarrow> hd (variants partType)
                                 | Some v \<Rightarrow> if v = [] then hd (variants partType) else v),
                   bp_laterality = laterality, bp_parent = parentId, bp_children = [],
                   bp_equipment = None, bp_properties = properties partType,
                   bp_chimeraOrigin = chimeraOrigin, bp_naturalArmor = None,
                   bp_hasWings = None, bp_offhandChance = None\<rparr>, w')))"

text \<open>
  \<open>createHumanoidBody\<close>. After the root, every part is made by the same three statements:
  create the part, store it under its id, push its id onto the parent object's children.
\<close>

definition createHumanoidBody_child ::
  "string \<Rightarrow> string \<Rightarrow> string \<Rightarrow> string \<Rightarrow> bodyParts \<Rightarrow> world
     \<Rightarrow> error + (string \<times> bodyParts \<times> world)" where
  "createHumanoidBody_child type variant laterality parentId parts w =
     (case createBodyPart type (Some variant) laterality (Some parentId) False w of
        (None, w') \<Rightarrow> Inl TypeError
      | (Some part, w') \<Rightarrow>
          let parts1 = AList.update (bp_id part) part parts
          in Inr (bp_id part,
                  (if bp_id part = parentId then parts1
                   else AList.map_entry parentId
                          (\<lambda>p. p\<lparr>bp_children := bp_children p @ [bp_id part]\<rparr>) parts1),
                  w'))"

definition createHumanoidBody :: "world \<Rightarrow> error + ((bodyParts \<times> string) \<times> world)" where
  "createHumanoidBody w =
     (case createBodyPart ''Body'' None [] None False w of
        (None, w0) \<Rightarrow> Inl TypeError
      | (Some body, w0) \<Rightarrow>
     (case createHumanoidBody_child ''Head'' ''Head'' [] (bp_id body) [(bp_id body, body)] w0 of
        Inl e \<Rightarrow> Inl e
      | Inr (head, parts1, w1) \<Rightarrow>
     (case createHumanoidBody_child ''Face'' ''Face'' [] head parts1 w1 of
        Inl e \<Rightarrow> Inl e
      | Inr (face, parts2, w2) \<Rightarrow>
     (case createHumanoidBody_child ''Back'' ''Back'' [] (bp_id body) parts2 w2 of
        Inl e \<Rightarrow> Inl e
      | Inr (back, parts3, w3) \<Rightarrow>
     (case createHumanoidBody_child ''Arm'' ''Arm'' ''Left'' (bp_id body) parts3 w3 of
        Inl e \<Rightarrow> Inl e
      | Inr (leftArm, parts4, w4) \<Rightarrow>
     (case createHumanoidBody_child ''Hand'' ''Hand'' ''Left'' leftArm parts4 w4 of
        Inl e \<Rightarrow> Inl e
      | Inr (leftHand, parts5, w5) \<Rightarrow>
     (case createHumanoidBody_child ''Arm'' ''Arm'' ''Right'' (bp_id body) parts5 w5 of
        Inl e \<Rightarrow> Inl e
      | Inr (rightArm, parts6, w6) \<Rightarrow>
     (case createHumanoidBody_child ''Hand'' ''Hand'' ''Right'' rightArm parts6 w6 of
        Inl e \<Rightarrow> Inl e
      | Inr (rightHand, parts7, w7) \<Rightarrow>
     (case createHumanoidBody_child ''Feet'' ''Feet'' [] (bp_id body) parts7 w7 of
        Inl e \<Rightarrow> Inl e
      | Inr (feet, parts8, w8) \<Rightarrow>
     (case createHumanoidBody_child ''FloatingNearby'' ''Floating Nearby'' [] (bp_id body)
             parts8 w8 of
        Inl e \<Rightarrow> Inl e
      | Inr (floating, parts9, w9) \<Rightarrow>
          Inr ((parts9, bp_id body), w9)))))))))))"

definition getBodyPartsByType :: "bodyParts \<Rightarrow> string \<Rightarrow> bodyPart list" where
  "getBodyPartsByType bodyParts type = filter (\<lambda>part. bp_type part = type) (map snd bodyParts)"

definition getBodyPartDisplayName :: "bodyPart \<Rightarrow> string" where
  "getBodyPartDisplayName part =
     (if bp_laterality part \<noteq> [] then bp_laterality part @ '' '' @ bp_variant part
      else bp_variant part)"

definition canEquipItem :: "bodyPart \<Rightarrow> bool" where
  "canEquipItem part =
     (case map_of bodyPartTypes (bp_type part) of None \<Rightarrow> False | Some partType \<Rightarrow> canEquip partType)"

definition canWieldWeapon :: "bodyPart \<Rightarrow> bool" where
  "canWieldWeapon part =
     (case map_of bodyPartTypes (bp_type part) of None \<Rightarrow> False | Some partType \<Rightarrow> canWield partType)"

definition getEquippableBodyParts :: "bodyParts \<Rightarrow> bodyPart list" where
  "getEquippableBodyParts bodyParts = filter canEquipItem (map snd bodyParts)"

definition getWieldingBodyParts :: "bodyParts \<Rightarrow> bodyPart list" where
  "getWieldingBodyParts bodyParts = filter canWieldWeapon (map snd bodyParts)"

text \<open>
  \<open>addBodyPart\<close>: no parent, no part. Otherwise the part is created, stored under its id and
  its id pushed onto the parent object's children. An unknown type makes \<open>createBodyPart\<close>
  return null, and reading \<open>newPart.id\<close> then throws. The parent object stays in the map
  unless the new id overwrote its key.
\<close>

definition addBodyPart ::
  "bodyParts \<Rightarrow> string \<Rightarrow> string option \<Rightarrow> string option \<Rightarrow> string \<Rightarrow> world
     \<Rightarrow> error + (bodyPart option \<times> bodyParts \<times> world)" where
  "addBodyPart bodyParts type parentId variant laterality w =
     (case parentId of
        None \<Rightarrow> Inr (None, bodyParts, w)
      | Some pid \<Rightarrow>
         (case map_of bodyParts pid of
            None \<Rightarrow> Inr (None, bodyParts, w)
          | Some parent \<Rightarrow>
             (case createBodyPart type variant laterality parentId False w of
                (None, w') \<Rightarrow> Inl TypeError
              | (Some newPart, w') \<Rightarrow>
                  let bodyParts1 = AList.update (bp_id newPart) newPart bodyParts;
                      bodyParts2 =
                        (if bp_id newPart = pid then bodyParts1
                         else AList.update pid
                                (parent\<lparr>bp_children := bp_children parent @ [bp_id newPart]\<rparr>)
                                bodyParts1)
                  in Inr (Some newPart, bodyParts2, w'))))"

text \<open>
  \<open>collectDescendants\<close>, the recursive closure inside \<open>removeBodyPart\<close>: depth first, each child
  id pushed before its own descendants. The first argument bounds the depth of the call stack;
  \<open>None\<close> is a recursion deeper than the bound (in the source, the stack overflowing on a
  cyclic children list).
\<close>

fun collectDescendants :: "nat \<Rightarrow> bodyParts \<Rightarrow> string \<Rightarrow> string list option" where
  "collectDescendants 0 bodyParts i = None"
| "collectDescendants (Suc depth) bodyParts i =
     (case map_of bodyParts i of
        None \<Rightarrow> Some []
      | Some p \<Rightarrow>
          map_option concat
            (those (map (\<lambda>childId. map_option (Cons childId)
                                      (collectDescendants depth bodyParts childId))
                        (bp_children p))))"

definition removeBodyPart ::
  "nat \<Rightarrow> bodyParts \<Rightarrow> string \<Rightarrow> (string list \<times> bodyParts) option" where
  "removeBodyPart depth bodyParts partId =
     (case map_of bodyParts partId of
        None \<Rightarrow> Some ([], bodyParts)
      | Some part \<Rightarrow>
         (case collectDescendants depth bodyParts partId of
            None \<Rightarrow> None
          | Some descendants \<Rightarrow>
              let removedIds = partId # descendants;
                  bodyParts1 =
                    (case bp_parent part of
                       None \<Rightarrow> bodyParts
                     | Some parentId \<Rightarrow>
                        (case map_of bodyParts parentId of
                           None \<Rightarrow> bodyParts
                         | Some parent \<Rightarrow>
                             AList.update parentId
                               (parent\<lparr>bp_children :=
                                  filter (\<lambda>i. i \<noteq> partId) (bp_children parent)\<rparr>)
                               bodyParts));
                  bodyParts2 = foldl (\<lambda>bps i. AList.delete i bps) bodyParts1 removedIds
              in Some (removedIds, bodyParts2)))"

text \<open>The children loop of \<open>addBodyPartWithChildren\<close>.\<close>

fun addBodyPartWithChildren_loop ::
  "string list \<Rightarrow> string \<Rightarrow> string \<Rightarrow> bool \<Rightarrow> string list \<Rightarrow> bodyParts \<Rightarrow> world
     \<Rightarrow> error + (string list \<times> bodyParts \<times> world)" where
  "addBodyPartWithChildren_loop [] mainId laterality chimeraOrigin addedIds bodyParts w =
     Inr (addedIds, bodyParts, w)"
| "addBodyPartWithChildren_loop (childType # rest) mainId laterality chimeraOrigin addedIds
     bodyParts w =
     (case addBodyPart bodyParts childType (Some mainId) None laterality w of
        Inl e \<Rightarrow> Inl e
      | Inr (None, bodyParts', w') \<Rightarrow>
          addBodyPartWithChildren_loop rest mainId laterality chimeraOrigin addedIds bodyParts' w'
      | Inr (Some childPart, bodyParts', w') \<Rightarrow>
          addBodyPartWithChildren_loop rest mainId laterality chimeraOrigin
            (addedIds @ [bp_id childPart])
            (if chimeraOrigin
             then AList.map_entry (bp_id childPart) (\<lambda>p. p\<lparr>bp_chimeraOrigin := True\<rparr>) bodyParts'
             else bodyParts')
            w')"

definition addBodyPartWithChildren ::
  "bodyParts \<Rightarrow> string \<Rightarrow> string option \<Rightarrow> string option \<Rightarrow> string \<Rightarrow> string list \<Rightarrow> bool
     \<Rightarrow> world \<Rightarrow> error + (string list \<times> bodyParts \<times> world)" where
  "addBodyPartWithChildren bodyParts type parentId variant laterality withChildren chimeraOrigin w =
     (case addBodyPart bodyParts type parentId variant laterality w of
        Inl e \<Rightarrow> Inl e
      | Inr (None, bodyParts', w') \<Rightarrow> Inr ([], bodyParts', w')
      | Inr (Some mainPart, bodyParts', w') \<Rightarrow>
          addBodyPartWithChildren_loop withChildren (bp_id mainPart) laterality chimeraOrigin
            [bp_id mainPart]
            (if chimeraOrigin
             then AList.map_entry (bp_id mainPart) (\<lambda>p. p\<lparr>bp_chimeraOrigin := True\<rparr>) bodyParts'
             else bodyParts')
            w')"

text \<open>
  \<open>rollChimeraBodyPart\<close>: a weighted choice among nine types with total weight 19, by
  subtracting the weights in order from the draw.
\<close>

definition chimeraWeights :: "(string \<times> int) list" where
  "chimeraWeights =
     [(''Hand'', 3), (''Arm'', 3), (''Head'', 3), (''Face'', 3), (''Feet'', 3), (''Fin'', 1),
      (''Tail'', 1), (''Roots'', 1), (''FungalOutcrop'', 1)]"

fun rollChimeraBodyPart_loop :: "(string \<times> int) list \<Rightarrow> int \<Rightarrow> string" where
  "rollChimeraBodyPart_loop [] roll = ''Hand''"
| "rollChimeraBodyPart_loop ((type, weight) # rest) roll =
     (if roll - weight < 0 then type else rollChimeraBodyPart_loop rest (roll - weight))"

definition rollChimeraBodyPart :: "world \<Rightarrow> string \<times> world" where
  "rollChimeraBodyPart w =
     (case randomBelow 19 w of (roll, w') \<Rightarrow>
        (rollChimeraBodyPart_loop chimeraWeights (int roll), w'))"

definition selectRandomParent :: "bodyParts \<Rightarrow> world \<Rightarrow> string option \<times> world" where
  "selectRandomParent bodyParts w =
     (let allParts = map snd bodyParts
      in if allParts = [] then (None, w)
         else (case randomBelow (length allParts) w of (randomIndex, w') \<Rightarrow>
                 (Some (bp_id (allParts ! randomIndex)), w')))"

section \<open>Natural weapon formulas (config.mjs)\<close>

text \<open>
  The formula strings of the configuration and of the mutation items are evaluated by the source
  with \<open>eval\<close> after the text \<open>level\<close> has been replaced by the mutation's level. A formula
  is modelled by the syntax tree of its text; every division in the source's formulas is under
  \<open>Math.floor\<close>.
\<close>

datatype formula =
  Level
| Num int
| Plus formula formula
| Minus formula formula
| Times formula formula
| FloorDiv formula formula

fun evalFormula :: "formula \<Rightarrow> int \<Rightarrow> int" where
  "evalFormula Level l = l"
| "evalFormula (Num n) l = n"
| "evalFormula (Plus a b) l = evalFormula a l + evalFormula b l"
| "evalFormula (Minus a b) l = evalFormula a l - evalFormula b l"
| "evalFormula (Times a b) l = evalFormula a l * evalFormula b l"
| "evalFormula (FloorDiv a b) l = evalFormula a l div evalFormula b l"

fun mentionsLevel :: "formula \<Rightarrow> bool" where
  "mentionsLevel Level = True"
| "mentionsLevel (Num n) = False"
| "mentionsLevel (Plus a b) = (mentionsLevel a \<or> mentionsLevel b)"
| "mentionsLevel (Minus a b) = (mentionsLevel a \<or> mentionsLevel b)"
| "mentionsLevel (Times a b) = (mentionsLevel a \<or> mentionsLevel b)"
| "mentionsLevel (FloorDiv a b) = (mentionsLevel a \<or> mentionsLevel b)"

record naturalWeaponFormula =
  nwf_damageByLevel :: "(int \<times> int \<times> string) list option"
  nwf_damageFormula :: "string option"
  nwf_avFormula :: "formula option"
  nwf_pvFormula :: "formula option"
  nwf_maxQuillsFormula :: "formula option"

definition naturalWeaponFormulas :: "(string \<times> naturalWeaponFormula) list" where
  "naturalWeaponFormulas =
     [(''BurrowingClaws'',
       \<lparr>nwf_damageByLevel =
          Some [(1, 3, ''1d2-1''), (4, 6, ''1d3-1''), (7, 9, ''1d4-1''), (10, 12, ''1d6-1''),
                (13, 15, ''1d8-1''), (16, 17, ''1d10-1''), (18, 99, ''1d12-1'')],
        nwf_damageFormula = None, nwf_avFormula = None,
        nwf_pvFormula = Some (Times Level (Num 3)), nwf_maxQuillsFormula = None\<rparr>),
      (''Horns'',
       \<lparr>nwf_damageByLevel = None,
        nwf_damageFormula = Some ''2d(Math.floor(level / 3) + 3)'',
        nwf_avFormula = Some (Plus (FloorDiv (Minus Level (Num 1)) (Num 3)) (Num 1)),
        nwf_pvFormula = None, nwf_maxQuillsFormula = None\<rparr>),
      (''Stinger'',
       \<lparr>nwf_damageByLevel =
          Some [(1, 3, ''1d6''), (4, 6, ''1d8''), (7, 12, ''1d10''), (13, 18, ''1d12''),
                (19, 99, ''2d8'')],
        nwf_damageFormula = None, nwf_avFormula = None, nwf_pvFormula = None,
        nwf_maxQuillsFormula = None\<rparr>),
      (''Quills'',
       \<lparr>nwf_damageByLevel = None, nwf_damageFormula = None,
        nwf_avFormula = Some (Plus (Num 1) (FloorDiv Level (Num 2))),
        nwf_pvFormula = None,
        nwf_maxQuillsFormula = Some (Plus (Num 300) (Times (Minus Level (Num 1)) (Num 100)))\<rparr>),
      (''Wings'',
       \<lparr>nwf_damageByLevel = None, nwf_damageFormula = None, nwf_avFormula = None,
        nwf_pvFormula = None, nwf_maxQuillsFormula = None\<rparr>)]"

definition getNaturalWeaponDamage :: "string \<Rightarrow> int \<Rightarrow> string option" where
  "getNaturalWeaponDamage mutationType l =
     (case map_of naturalWeaponFormulas mutationType of
        None \<Rightarrow> None
      | Some f \<Rightarrow>
         (case nwf_damageByLevel f of
            Some tiers \<Rightarrow>
              (case find (\<lambda>(minLevel, maxLevel, damage). l \<ge> minLevel \<and> l \<le> maxLevel) tiers of
                 Some (minLevel, maxLevel, damage) \<Rightarrow> Some damage
               | None \<Rightarrow> Some (snd (snd (last tiers))))
          | None \<Rightarrow>
             (case nwf_damageFormula f of
                Some text \<Rightarrow> Some (showInt 2 @ ''d'' @ showInt (l div 3 + 3))
              | None \<Rightarrow> None)))"

section \<open>JavaScript numbers\<close>

text \<open>
  A JavaScript number is an IEEE 754 binary64 value, and every arithmetic operation returns the
  representable value nearest to the exact result, ties going to the even significand. A
  number is modelled by the rational it denotes, and \<open>round64\<close> rounds a rational to 53
  significant bits in that way: \<open>ilog2\<close> finds the binary exponent, the value is scaled so that
  its integer part has 53 bits, and the fraction decides the rounding. The result is kept as
  a fraction in lowest terms (\<open>lowestTerms\<close> changes the form, not the value). Overflow,
  subnormal values and NaN are not modelled; the quantities of this system are far from those
  ranges.
  Quantities that the source keeps integral (attribute values, armor values, levels, hit
  points) are integers in the model.
\<close>

function bitLength :: "int \<Rightarrow> int" where
  "bitLength n = (if n \<le> 0 then 0 else 1 + bitLength (n div 2))"
  by pat_completeness auto
termination
  by (relation "measure nat") auto

definition pow2 :: "int \<Rightarrow> rat" where
  "pow2 e = (if e \<ge> 0 then 2 ^ nat e else 1 / 2 ^ nat (- e))"

definition ilog2 :: "rat \<Rightarrow> int" where
  "ilog2 x =
     (case quotient_of x of (p, q) \<Rightarrow>
        let d = bitLength p - bitLength q
        in if pow2 d \<le> x then d else d - 1)"

definition lowestTerms :: "rat \<Rightarrow> rat" where
  "lowestTerms x = (case quotient_of x of (p, q) \<Rightarrow> Fract p q)"

definition round64 :: "rat \<Rightarrow> rat" where
  "round64 x =
     (if x = 0 then 0
      else
        let e = ilog2 \<bar>x\<bar>;
            u = pow2 (e - 52);
            q = \<bar>x\<bar> / u;
            n = \<lfloor>q\<rfloor>;
            r = q - of_int n;
            m = (if r < 1 / 2 then n
                 else if r > 1 / 2 then n + 1
                 else if even n then n else n + 1)
        in lowestTerms (sgn x * of_int m * u))"

definition jsAdd :: "rat \<Rightarrow> rat \<Rightarrow> rat" where
  "jsAdd x y = round64 (x + y)"

definition jsMul :: "rat \<Rightarrow> rat \<Rightarrow> rat" where
  "jsMul x y = round64 (x * y)"

definition jsDiv :: "rat \<Rightarrow> rat \<Rightarrow> rat" where
  "jsDiv x y = round64 (x / y)"

section \<open>Actor document (actor.mjs)\<close>

text \<open>
  Document ids are non-empty strings, and a reference that may be null is an \<open>option\<close>: the
  source's truthiness tests on references (\<open>if (part.equipment)\<close>, \<open>if (part.parent)\<close>) are
  tests for \<open>None\<close>. Numbers are integers, except where the source divides: averages,
  the percent bonus and the regeneration rate are computed in double precision
  (\<open>jsAdd\<close>, \<open>jsMul\<close>, \<open>jsDiv\<close>). \<open>x || d\<close> on a number is \<open>jsOr x d\<close>. Method names lose their
  leading underscore. Storing through the host's \<open>update\<close> is assignment to the named field.
\<close>

definition jsOr :: "int \<Rightarrow> int \<Rightarrow> int" where
  "jsOr x d = (if x = 0 then d else x)"

record attribute =
  attr_value :: int
  attr_mod :: int

record attributes =
  strength :: attribute
  agility :: attribute
  toughness :: attribute
  intelligence :: attribute
  willpower :: attribute
  ego :: attribute

record hpEntry =
  hp_level :: int
  hp_roll :: int
  hp_modifier :: int
  hp_total :: int

record health =
  health_value :: int
  health_max :: int
  hpHistory :: "hpEntry list option"

record combat =
  combat_dv :: int
  combat_pv :: int
  combat_ma :: int
  combat_av :: int
  mainHandId :: "string option"

record carryCapacity =
  cc_max :: int
  cc_current :: int
  cc_overburdened :: bool

record skillPoints =
  sp_total :: int
  sp_spent :: int
  sp_available :: int

record systemData =
  sys_attributes :: attributes
  sys_level :: int
  sys_health :: health
  sys_combat :: combat
  sys_carryCapacity :: carryCapacity
  sys_skillPoints :: skillPoints
  sys_hpRegenRate :: rat
  sys_reductionPercent :: int
  sys_minimumCooldown :: int
  sys_movement :: "int option"
  sys_quickness :: "int option"
  sys_characterType :: string
  sys_bodyParts :: bodyParts
  sys_bodyRoot :: string
  sys_multiweaponTier :: "int option"

record statBonus =
  sb_type :: string
  sb_value :: int
  sb_formula :: "formula option"

record statBonuses =
  sb_carryCapacity :: "statBonus option"
  sb_movementSpeed :: "statBonus option"
  sb_quickness :: "statBonus option"

record naturalWeaponSpec =
  nw_enabled :: bool
  nw_bodyPartTypes :: "string list"
  nw_damageFormula :: string
  nw_pv :: int
  nw_attackChance :: int

record providesArmor =
  pa_enabled :: bool
  pa_bodyPartType :: string

record resourceTracking =
  rt_enabled :: bool
  rt_current :: int

record bodyModification =
  bm_action :: string
  bm_targetType :: string
  bm_newType :: string
  bm_preserveEquipment :: bool
  bm_parent :: "string option"
  bm_type :: string
  bm_variant :: "string option"
  bm_laterality :: string
  bm_withChildren :: "string list"
  bm_chimeraOrigin :: bool

record item =
  item_id :: string
  item_name :: string
  item_type :: string
  item_weight :: int
  item_quantity :: int
  item_av :: int
  item_dvModifier :: int
  item_pv :: int
  item_damage :: string
  item_slot :: string
  item_equipped :: bool
  item_level :: int
  item_isActive :: bool
  item_statBonuses :: "statBonuses option"
  item_bodyModifications :: "bodyModification list"
  item_addedBodyParts :: "string list"
  item_naturalWeapon :: "naturalWeaponSpec option"
  item_providesArmor :: "providesArmor option"
  item_resourceTracking :: "resourceTracking option"
  item_blockedEquipment :: "(string \<times> string list) list option"

record actor =
  actor_name :: string
  actor_type :: string
  actor_system :: systemData
  actor_items :: "item list"

text \<open>\<open>this.items.get(id)\<close>.\<close>

definition itemsGet :: "item list \<Rightarrow> string \<Rightarrow> item option" where
  "itemsGet items i = find (\<lambda>it. item_id it = i) items"

definition isActiveMutation :: "item \<Rightarrow> bool" where
  "isActiveMutation it = (item_type it = ''mutation'' \<and> item_isActive it)"

subsection \<open>Derived statistics\<close>

definition calculateAttributeModifiers :: "systemData \<Rightarrow> systemData" where
  "calculateAttributeModifiers s =
     (let f = (\<lambda>a. a\<lparr>attr_mod := (attr_value a - 16) div 2\<rparr>);
          attrs = sys_attributes s
      in s\<lparr>sys_attributes :=
            \<lparr>strength = f (strength attrs), agility = f (agility attrs),
             toughness = f (toughness attrs), intelligence = f (intelligence attrs),
             willpower = f (willpower attrs), ego = f (ego attrs)\<rparr>\<rparr>)"

text \<open>
  The loop of \<open>_calculateHP\<close> over the entries after the first: each entry gets the current
  toughness modifier and its roll plus that modifier, which is added to the running maximum.
\<close>

fun calculateHP_loop :: "int \<Rightarrow> hpEntry list \<Rightarrow> int \<Rightarrow> hpEntry list \<times> int" where
  "calculateHP_loop toughMod [] calculatedMax = ([], calculatedMax)"
| "calculateHP_loop toughMod (entry # rest) calculatedMax =
     (let hpGain = hp_roll entry + toughMod;
          entry' = entry\<lparr>hp_modifier := toughMod, hp_total := hpGain\<rparr>
      in case calculateHP_loop toughMod rest (calculatedMax + hpGain) of
           (rest', m) \<Rightarrow> (entry' # rest', m))"

definition calculateHP :: "systemData \<Rightarrow> systemData" where
  "calculateHP s =
     (let toughValue = attr_value (toughness (sys_attributes s));
          toughMod = attr_mod (toughness (sys_attributes s));
          h = sys_health s;
          history = (case hpHistory h of None \<Rightarrow> [] | Some es \<Rightarrow> es);
          h1 =
            (if sys_level s = 1
             then h\<lparr>health_max := toughValue,
                    hpHistory := Some (if history = []
                                       then [\<lparr>hp_level = 1, hp_roll = toughValue,
                                              hp_modifier = toughMod, hp_total = toughValue\<rparr>]
                                       else history)\<rparr>
             else (case calculateHP_loop toughMod (drop 1 history) toughValue of
                     (rest', calculatedMax) \<Rightarrow>
                       h\<lparr>health_max := calculatedMax,
                         hpHistory := Some (take 1 history @ rest')\<rparr>));
          h2 = (if health_value h1 > health_max h1
                then h1\<lparr>health_value := health_max h1\<rparr> else h1)
      in s\<lparr>sys_health := h2\<rparr>)"

text \<open>
  \<open>_applyEquipmentBonuses\<close>. First the parts are grouped by type into an object keyed by
  type; then every group, in the order of the object's keys, adds the average of its parts'
  armor values and of their dodge modifiers to the running totals, and the totals are rounded
  down. The averages and the totals are doubles.
\<close>

fun partsByType_loop ::
  "bodyPart list \<Rightarrow> (string \<times> bodyPart list) list \<Rightarrow> (string \<times> bodyPart list) list" where
  "partsByType_loop [] partsByType = partsByType"
| "partsByType_loop (part # rest) partsByType =
     partsByType_loop rest
       (AList.update (bp_type part)
          ((case map_of partsByType (bp_type part) of None \<Rightarrow> [] | Some ps \<Rightarrow> ps) @ [part])
          partsByType)"

text \<open>
  The body of the inner loop over the parts of a group: \<open>partAV\<close> and \<open>partDV\<close> of one
  part. Only an equipped item of type armor counts; natural armor is added when it is there and
  not 0.
\<close>

definition partAV :: "item list \<Rightarrow> bodyPart \<Rightarrow> int" where
  "partAV items part =
     (let fromItem =
            (case bp_equipment part of
               None \<Rightarrow> 0
             | Some e \<Rightarrow>
                (case itemsGet items e of
                   None \<Rightarrow> 0
                 | Some it \<Rightarrow> if item_type it = ''armor'' then jsOr (item_av it) 0 else 0))
      in case bp_naturalArmor part of
           None \<Rightarrow> fromItem
         | Some na \<Rightarrow> if na_av na \<noteq> 0 then fromItem + na_av na else fromItem)"

definition partDV :: "item list \<Rightarrow> bodyPart \<Rightarrow> int" where
  "partDV items part =
     (case bp_equipment part of
        None \<Rightarrow> 0
      | Some e \<Rightarrow>
         (case itemsGet items e of
            None \<Rightarrow> 0
          | Some it \<Rightarrow> if item_type it = ''armor'' then jsOr (item_dvModifier it) 0 else 0))"

fun applyEquipmentBonuses_loop ::
  "item list \<Rightarrow> (string \<times> bodyPart list) list \<Rightarrow> rat \<Rightarrow> rat \<Rightarrow> rat \<times> rat" where
  "applyEquipmentBonuses_loop items [] totalAV totalDV = (totalAV, totalDV)"
| "applyEquipmentBonuses_loop items ((type, parts) # groups) totalAV totalDV =
     (if length parts = 0 then applyEquipmentBonuses_loop items groups totalAV totalDV
      else
        let avValues = map (partAV items) parts;
            dvValues = map (partDV items) parts
        in if length avValues > 0
           then
             let avgAV = jsDiv (foldl (\<lambda>sum v. jsAdd sum (of_int v)) 0 avValues)
                           (of_nat (length avValues));
                 avgDV = jsDiv (foldl (\<lambda>sum v. jsAdd sum (of_int v)) 0 dvValues)
                           (of_nat (length dvValues))
             in applyEquipmentBonuses_loop items groups (jsAdd totalAV avgAV)
                  (jsAdd totalDV avgDV)
           else applyEquipmentBonuses_loop items groups totalAV totalDV)"

definition applyEquipmentBonuses :: "item list \<Rightarrow> systemData \<Rightarrow> systemData" where
  "applyEquipmentBonuses items s =
     (let partsByType = partsByType_loop (map snd (sys_bodyParts s)) []
      in case applyEquipmentBonuses_loop items partsByType 0 0 of
           (totalAV, totalDV) \<Rightarrow>
             s\<lparr>sys_combat := (sys_combat s)
                  \<lparr>combat_av := \<lfloor>totalAV\<rfloor>,
                   combat_dv := combat_dv (sys_combat s) + \<lfloor>totalDV\<rfloor>\<rparr>\<rparr>)"

definition calculateCombatStats :: "item list \<Rightarrow> systemData \<Rightarrow> systemData" where
  "calculateCombatStats items s =
     (let agiMod = attr_mod (agility (sys_attributes s));
          strMod = attr_mod (strength (sys_attributes s));
          wilMod = attr_mod (willpower (sys_attributes s));
          s1 = s\<lparr>sys_combat := (sys_combat s)
                  \<lparr>combat_dv := 6 + agiMod, combat_pv := 4 + strMod, combat_ma := 4 + wilMod\<rparr>\<rparr>
      in applyEquipmentBonuses items (calculateHP s1))"

definition calculateCarryCapacity :: "item list \<Rightarrow> systemData \<Rightarrow> systemData" where
  "calculateCarryCapacity items s =
     (let strValue = attr_value (strength (sys_attributes s));
          capacity = 15 * strValue;
          currentWeight =
            sum_list (map (\<lambda>it. jsOr (item_weight it) 0 * jsOr (item_quantity it) 1) items)
      in s\<lparr>sys_carryCapacity :=
            \<lparr>cc_max = capacity, cc_current = currentWeight,
             cc_overburdened = (currentWeight > capacity)\<rparr>\<rparr>)"

definition calculateSkillPoints :: "systemData \<Rightarrow> systemData" where
  "calculateSkillPoints s =
     (let intValue = attr_value (intelligence (sys_attributes s));
          basePerLevel = (if sys_characterType s = ''TrueKin'' then 70 else 50);
          intModifier = (intValue - 10) * 4;
          pointsPerLevel = basePerLevel + intModifier;
          totalEarned = pointsPerLevel * sys_level s;
          spent = jsOr (sp_spent (sys_skillPoints s)) 0
      in s\<lparr>sys_skillPoints := (sys_skillPoints s)
            \<lparr>sp_total := totalEarned, sp_available := totalEarned - spent\<rparr>\<rparr>)"

definition calculateHPRegeneration :: "systemData \<Rightarrow> systemData" where
  "calculateHPRegeneration s =
     (let wilMod = attr_mod (willpower (sys_attributes s));
          touMod = attr_mod (toughness (sys_attributes s));
          numerator = 20 + 2 * (wilMod + touMod)
      in s\<lparr>sys_hpRegenRate := jsDiv (of_int numerator) 100\<rparr>)"

definition calculateCooldownReduction :: "systemData \<Rightarrow> systemData" where
  "calculateCooldownReduction s =
     (let wilValue = attr_value (willpower (sys_attributes s));
          reduction = max 0 ((wilValue - 16) * 5)
      in s\<lparr>sys_reductionPercent := min 80 reduction, sys_minimumCooldown := 5\<rparr>)"

text \<open>
  \<open>_applyMutationBonuses\<close>, one item of the loop at a time. The movement and quickness
  buckets are created at 0 only when the system data has none.
\<close>

definition applyCarryCapacityBonus :: "statBonuses \<Rightarrow> int \<Rightarrow> systemData \<Rightarrow> systemData" where
  "applyCarryCapacityBonus bonuses l s =
     (case sb_carryCapacity bonuses of
        None \<Rightarrow> s
      | Some bonus \<Rightarrow>
          if sb_value bonus = 0 then s
          else
            let cc = sys_carryCapacity s in
            if sb_type bonus = ''flat''
              then s\<lparr>sys_carryCapacity := cc\<lparr>cc_max := cc_max cc + sb_value bonus\<rparr>\<rparr>
            else if sb_type bonus = ''percent''
              then s\<lparr>sys_carryCapacity := cc\<lparr>cc_max := cc_max cc
                      + \<lfloor>jsMul (of_int (cc_max cc)) (jsDiv (of_int (sb_value bonus)) 100)\<rfloor>\<rparr>\<rparr>
            else if sb_type bonus = ''formula''
              then (case sb_formula bonus of
                      None \<Rightarrow> s
                    | Some f \<Rightarrow>
                        s\<lparr>sys_carryCapacity := cc\<lparr>cc_max := cc_max cc + evalFormula f l\<rparr>\<rparr>)
            else s)"

definition applyMovementSpeedBonus :: "statBonuses \<Rightarrow> int \<Rightarrow> systemData \<Rightarrow> systemData" where
  "applyMovementSpeedBonus bonuses l s =
     (case sb_movementSpeed bonuses of
        None \<Rightarrow> s
      | Some bonus \<Rightarrow>
          if sb_value bonus = 0 then s
          else
            let speedBonus = (case sys_movement s of None \<Rightarrow> 0 | Some b \<Rightarrow> b) in
            if sb_type bonus = ''percent''
              then s\<lparr>sys_movement := Some (speedBonus + sb_value bonus)\<rparr>
            else if sb_type bonus = ''formula''
              then (case sb_formula bonus of
                      None \<Rightarrow> s\<lparr>sys_movement := Some speedBonus\<rparr>
                    | Some f \<Rightarrow> s\<lparr>sys_movement := Some (speedBonus + evalFormula f l)\<rparr>)
            else s\<lparr>sys_movement := Some speedBonus\<rparr>)"

definition applyQuicknessBonus :: "statBonuses \<Rightarrow> int \<Rightarrow> systemData \<Rightarrow> systemData" where
  "applyQuicknessBonus bonuses l s =
     (case sb_quickness bonuses of
        None \<Rightarrow> s
      | Some bonus \<Rightarrow>
          if sb_value bonus = 0 then s
          else
            let b0 = (case sys_quickness s of None \<Rightarrow> 0 | Some b \<Rightarrow> b) in
            if sb_type bonus = ''flat''
              then s\<lparr>sys_quickness := Some (b0 + sb_value bonus)\<rparr>
            else if sb_type bonus = ''formula''
              then (case sb_formula bonus of
                      None \<Rightarrow> s\<lparr>sys_quickness := Some b0\<rparr>
                    | Some f \<Rightarrow> s\<lparr>sys_quickness := Some (b0 + evalFormula f l)\<rparr>)
            else s\<lparr>sys_quickness := Some b0\<rparr>)"

fun applyMutationBonuses :: "item list \<Rightarrow> systemData \<Rightarrow> systemData" where
  "applyMutationBonuses [] s = s"
| "applyMutationBonuses (it # rest) s =
     (if item_type it \<noteq> ''mutation'' \<or> \<not> item_isActive it then applyMutationBonuses rest s
      else
        (case item_statBonuses it of
           None \<Rightarrow> applyMutationBonuses rest s
         | Some bonuses \<Rightarrow>
             applyMutationBonuses rest
               (applyQuicknessBonus bonuses (item_level it)
                 (applyMovementSpeedBonus bonuses (item_level it)
                   (applyCarryCapacityBonus bonuses (item_level it) s)))))"

text \<open>Offhand chances.\<close>

fun getMutationLevelForBodyPart :: "item list \<Rightarrow> string \<Rightarrow> int" where
  "getMutationLevelForBodyPart [] bodyPartId = 0"
| "getMutationLevelForBodyPart (it # rest) bodyPartId =
     (if isActiveMutation it \<and> bodyPartId \<in> set (item_addedBodyParts it)
      then jsOr (item_level it) 1
      else getMutationLevelForBodyPart rest bodyPartId)"

definition calculateOffhandChance :: "item list \<Rightarrow> systemData \<Rightarrow> string \<Rightarrow> int" where
  "calculateOffhandChance items s bodyPartId =
     (let mutationLevel = getMutationLevelForBodyPart items bodyPartId;
          baseChance = 7 + mutationLevel * 3;
          skillTier = (case sys_multiweaponTier s of None \<Rightarrow> 0 | Some t \<Rightarrow> t);
          skillBonus = (if 0 \<le> skillTier \<and> skillTier < 4
                        then [0, 20, 35, 50] ! nat skillTier else 0)
      in min 100 (baseChance + skillBonus))"

fun naturalWeaponAttackChance :: "item list \<Rightarrow> bodyPart \<Rightarrow> int option" where
  "naturalWeaponAttackChance [] part = None"
| "naturalWeaponAttackChance (it # rest) part =
     (case (if isActiveMutation it then item_naturalWeapon it else None) of
        None \<Rightarrow> naturalWeaponAttackChance rest part
      | Some nw \<Rightarrow>
          if nw_enabled nw \<and> bp_type part \<in> set (nw_bodyPartTypes nw)
          then Some (nw_attackChance nw)
          else naturalWeaponAttackChance rest part)"

definition calculateOffhandChances :: "item list \<Rightarrow> systemData \<Rightarrow> systemData" where
  "calculateOffhandChances items s =
     s\<lparr>sys_bodyParts :=
         map (\<lambda>(partId, part).
                (partId,
                 if canWieldWeapon part
                 then part\<lparr>bp_offhandChance := Some (calculateOffhandChance items s partId)\<rparr>
                 else (case naturalWeaponAttackChance items part of
                         None \<Rightarrow> part
                       | Some chance \<Rightarrow> part\<lparr>bp_offhandChance := Some chance\<rparr>)))
             (sys_bodyParts s)\<rparr>"

text \<open>
  \<open>_calculateNaturalArmor\<close>: clear the natural armor and the wings flag of every part, set the
  flag on every Back when an active mutation is named Wings, then let every active mutation
  that provides armor write its value onto the parts of its type. A mutation that tracks a
  resource gets its current count initialised on the way.
\<close>

definition hasActiveWings :: "item list \<Rightarrow> bool" where
  "hasActiveWings items = list_ex (\<lambda>it. isActiveMutation it \<and> item_name it = ''Wings'') items"

definition initResourceTracking :: "item \<Rightarrow> item" where
  "initResourceTracking it =
     (case item_resourceTracking it of
        None \<Rightarrow> it
      | Some rt \<Rightarrow>
          if \<not> rt_enabled rt then it
          else
            (case map_of naturalWeaponFormulas (item_name it) of
               None \<Rightarrow> it
             | Some f \<Rightarrow>
                (case nwf_maxQuillsFormula f of
                   None \<Rightarrow> it
                 | Some q \<Rightarrow>
                     if rt_current rt = 0
                     then it\<lparr>item_resourceTracking :=
                              Some (rt\<lparr>rt_current := evalFormula q (item_level it)\<rparr>)\<rparr>
                     else it)))"

definition naturalArmorAV :: "item \<Rightarrow> int" where
  "naturalArmorAV it =
     (case map_of naturalWeaponFormulas (item_name it) of
        None \<Rightarrow> 0
      | Some f \<Rightarrow>
         (case nwf_avFormula f of None \<Rightarrow> 0 | Some a \<Rightarrow> evalFormula a (item_level it)))"

fun calculateNaturalArmor_loop :: "item list \<Rightarrow> bodyParts \<Rightarrow> bodyParts \<times> item list" where
  "calculateNaturalArmor_loop [] parts = (parts, [])"
| "calculateNaturalArmor_loop (it # rest) parts =
     (case (if isActiveMutation it then item_providesArmor it else None) of
        None \<Rightarrow>
          (case calculateNaturalArmor_loop rest parts of (parts', rest') \<Rightarrow> (parts', it # rest'))
      | Some armorData \<Rightarrow>
          if \<not> pa_enabled armorData
          then (case calculateNaturalArmor_loop rest parts of
                  (parts', rest') \<Rightarrow> (parts', it # rest'))
          else
            let it' = initResourceTracking it;
                parts1 =
                  map (\<lambda>(partId, part).
                         (partId,
                          if bp_type part = pa_bodyPartType armorData
                          then part\<lparr>bp_naturalArmor :=
                                      Some \<lparr>na_av = naturalArmorAV it,
                                            na_source = item_name it\<rparr>\<rparr>
                          else part))
                      parts
            in (case calculateNaturalArmor_loop rest parts1 of
                  (parts', rest') \<Rightarrow> (parts', it' # rest')))"

definition calculateNaturalArmor :: "actor \<Rightarrow> actor" where
  "calculateNaturalArmor a =
     (let s = actor_system a;
          wings = hasActiveWings (actor_items a);
          cleared =
            map (\<lambda>(partId, part).
                   (partId,
                    part\<lparr>bp_naturalArmor := Some \<lparr>na_av = 0, na_source = []\<rparr>,
                         bp_hasWings := Some (wings \<and> bp_type part = ''Back'')\<rparr>))
                (sys_bodyParts s)
      in case calculateNaturalArmor_loop (actor_items a) cleared of
           (parts', items') \<Rightarrow>
             a\<lparr>actor_system := s\<lparr>sys_bodyParts := parts'\<rparr>, actor_items := items'\<rparr>)"

text \<open>\<open>_prepareCharacterData\<close>: the steps in the order of the source.\<close>

definition prepareCharacterData :: "actor \<Rightarrow> actor" where
  "prepareCharacterData a =
     (let a1 = a\<lparr>actor_system := calculateAttributeModifiers (actor_system a)\<rparr>;
          a2 = calculateNaturalArmor a1;
          items = actor_items a2;
          s3 = calculateCombatStats items (actor_system a2);
          s4 = calculateCarryCapacity items s3;
          s5 = calculateSkillPoints s4;
          s6 = calculateHPRegeneration s5;
          s7 = calculateCooldownReduction s6;
          s8 = applyMutationBonuses items s7;
          s9 = calculateOffhandChances items s8
      in a2\<lparr>actor_system := s9\<rparr>)"

subsection \<open>Mutations and natural weapons\<close>

text \<open>
  \<open>mutationItem.update(...)\<close> changes the item document, and with it the actor's copy of the
  item with that id.
\<close>

definition updateItem :: "item \<Rightarrow> actor \<Rightarrow> actor" where
  "updateItem it a =
     a\<lparr>actor_items := map (\<lambda>x. if item_id x = item_id it then it else x) (actor_items a)\<rparr>"

definition setBodyParts :: "bodyParts \<Rightarrow> actor \<Rightarrow> actor" where
  "setBodyParts parts a = a\<lparr>actor_system := (actor_system a)\<lparr>sys_bodyParts := parts\<rparr>\<rparr>"

definition addBodyPartMutation ::
  "string \<Rightarrow> string option \<Rightarrow> string option \<Rightarrow> string \<Rightarrow> string list \<Rightarrow> bool \<Rightarrow> world \<Rightarrow> actor
     \<Rightarrow> error + (string list \<times> world \<times> actor)" where
  "addBodyPartMutation type parentId variant laterality withChildren chimeraOrigin w a =
     (case addBodyPartWithChildren (sys_bodyParts (actor_system a)) type parentId variant
             laterality withChildren chimeraOrigin w of
        Inl e \<Rightarrow> Inl e
      | Inr (addedIds, bodyParts', w') \<Rightarrow>
          Inr (addedIds, w', if length addedIds > 0 then setBodyParts bodyParts' a else a))"

text \<open>
  \<open>collectEquipment\<close>, the recursive closure inside \<open>removeBodyPartMutation\<close>, with the same
  bound on the call stack as \<open>collectDescendants\<close>.
\<close>

fun collectEquipment :: "nat \<Rightarrow> bodyParts \<Rightarrow> string \<Rightarrow> string list option" where
  "collectEquipment 0 bodyParts i = None"
| "collectEquipment (Suc depth) bodyParts i =
     (case map_of bodyParts i of
        None \<Rightarrow> Some []
      | Some p \<Rightarrow>
          map_option (\<lambda>below. (case bp_equipment p of None \<Rightarrow> [] | Some e \<Rightarrow> [e]) @ concat below)
            (those (map (\<lambda>childId. collectEquipment depth bodyParts childId) (bp_children p))))"

definition removeBodyPartMutation ::
  "nat \<Rightarrow> string \<Rightarrow> actor \<Rightarrow> (string list \<times> actor) option" where
  "removeBodyPartMutation depth partId a =
     (let bodyParts = sys_bodyParts (actor_system a)
      in case map_of bodyParts partId of
           None \<Rightarrow> Some ([], a)
         | Some part \<Rightarrow>
            (case collectEquipment depth bodyParts partId of
               None \<Rightarrow> None
             | Some toUnequip \<Rightarrow>
                (case removeBodyPart depth bodyParts partId of
                   None \<Rightarrow> None
                 | Some (removedIds, bodyParts') \<Rightarrow>
                     if length removedIds > 0
                     then Some (removedIds,
                            (setBodyParts bodyParts' a)
                              \<lparr>actor_items :=
                                 map (\<lambda>it. if item_id it \<in> set toUnequip \<and> item_equipped it
                                            then it\<lparr>item_equipped := False\<rparr> else it)
                                     (actor_items a)\<rparr>)
                     else Some (removedIds, a))))"

text \<open>
  \<open>applyMutation\<close>. A replace modification rewrites the type of every part of the target type
  in place, clears its equipment unless told to preserve it, and tracks its id. Any other
  modification adds a part: the parent is a random part, the body root, or the id given; the
  type may be random; the variant \<open>auto\<close> is no variant; a chimera part without listed
  children gets a hand (for an arm) or a face (for a head).
\<close>

definition applyReplace :: "bodyModification \<Rightarrow> bodyParts \<Rightarrow> bodyParts \<times> string list" where
  "applyReplace m bodyParts =
     (map (\<lambda>(partId, part).
             (partId,
              if bp_type part = bm_targetType m
              then part\<lparr>bp_type := bm_newType m,
                        bp_equipment := (if bm_preserveEquipment m then bp_equipment part
                                         else None)\<rparr>
              else part))
          bodyParts,
      map fst (filter (\<lambda>(partId, part). bp_type part = bm_targetType m) bodyParts))"

definition applyAdd ::
  "bodyModification \<Rightarrow> world \<Rightarrow> actor \<Rightarrow> error + (string list \<times> world \<times> actor)" where
  "applyAdd m w a =
     (case (if bm_parent m = Some ''random''
            then selectRandomParent (sys_bodyParts (actor_system a)) w
            else if bm_parent m = Some ''Body'' then (Some (sys_bodyRoot (actor_system a)), w)
            else (bm_parent m, w)) of
        (parentId, w1) \<Rightarrow>
     (case (if bm_type m = ''random'' then rollChimeraBodyPart w1 else (bm_type m, w1)) of
        (partType, w2) \<Rightarrow>
          let variant = (if bm_variant m = Some ''auto'' \<or> bm_variant m = Some [] then None
                         else bm_variant m);
              withChildren =
                (if length (bm_withChildren m) = 0 \<and> bm_chimeraOrigin m
                 then (if partType = ''Head'' then [''Face'']
                       else if partType = ''Arm'' then [''Hand'']
                       else bm_withChildren m)
                 else bm_withChildren m)
          in addBodyPartMutation partType parentId variant (bm_laterality m) withChildren
               (bm_chimeraOrigin m) w2 a))"

fun applyMutation_loop ::
  "bodyModification list \<Rightarrow> string list \<Rightarrow> world \<Rightarrow> actor
     \<Rightarrow> error + (string list \<times> world \<times> actor)" where
  "applyMutation_loop [] allAddedIds w a = Inr (allAddedIds, w, a)"
| "applyMutation_loop (m # rest) allAddedIds w a =
     (if bm_action m = ''replace''
      then (case applyReplace m (sys_bodyParts (actor_system a)) of
              (bodyParts', ids) \<Rightarrow>
                applyMutation_loop rest (allAddedIds @ ids) w (setBodyParts bodyParts' a))
      else (case applyAdd m w a of
              Inl e \<Rightarrow> Inl e
            | Inr (addedIds, w', a') \<Rightarrow> applyMutation_loop rest (allAddedIds @ addedIds) w' a'))"

definition applyMutation ::
  "item \<Rightarrow> world \<Rightarrow> actor \<Rightarrow> error + (string list \<times> item \<times> world \<times> actor)" where
  "applyMutation mutationItem w a =
     (if item_type mutationItem \<noteq> ''mutation'' then Inr ([], mutationItem, w, a)
      else
        (case applyMutation_loop (item_bodyModifications mutationItem) [] w a of
           Inl e \<Rightarrow> Inl e
         | Inr (allAddedIds, w', a') \<Rightarrow>
             let it' = mutationItem\<lparr>item_addedBodyParts := allAddedIds, item_isActive := True\<rparr>
             in Inr (allAddedIds, it', w', updateItem it' a')))"

text \<open>
  \<open>removeMutation\<close>. With a replace modification among the item's modifications, every tracked
  part that has the new type gets the target type back and nothing is deleted; otherwise every
  tracked part is removed with its descendants.
\<close>

fun removeMutation_restore ::
  "bodyModification list \<Rightarrow> string list \<Rightarrow> bodyParts \<Rightarrow> string list
     \<Rightarrow> bodyParts \<times> string list" where
  "removeMutation_restore [] addedParts bodyParts allRemovedIds = (bodyParts, allRemovedIds)"
| "removeMutation_restore (m # rest) addedParts bodyParts allRemovedIds =
     (if bm_action m = ''replace''
      then removeMutation_restore rest addedParts
             (map (\<lambda>(partId, part).
                     (partId,
                      if bp_type part = bm_newType m \<and> partId \<in> set addedParts
                      then part\<lparr>bp_type := bm_targetType m\<rparr> else part))
                  bodyParts)
             (allRemovedIds
              @ map fst (filter (\<lambda>(partId, part).
                                   bp_type part = bm_newType m \<and> partId \<in> set addedParts)
                                bodyParts))
      else removeMutation_restore rest addedParts bodyParts allRemovedIds)"

fun removeMutation_remove ::
  "nat \<Rightarrow> string list \<Rightarrow> string list \<Rightarrow> actor \<Rightarrow> (string list \<times> actor) option" where
  "removeMutation_remove depth [] allRemovedIds a = Some (allRemovedIds, a)"
| "removeMutation_remove depth (partId # rest) allRemovedIds a =
     (case removeBodyPartMutation depth partId a of
        None \<Rightarrow> None
      | Some (removedIds, a') \<Rightarrow> removeMutation_remove depth rest (allRemovedIds @ removedIds) a')"

definition removeMutation ::
  "nat \<Rightarrow> item \<Rightarrow> actor \<Rightarrow> (string list \<times> item \<times> actor) option" where
  "removeMutation depth mutationItem a =
     (if item_type mutationItem \<noteq> ''mutation'' then Some ([], mutationItem, a)
      else
        let addedParts = item_addedBodyParts mutationItem;
            modifications = item_bodyModifications mutationItem;
            hasReplaceActions = list_ex (\<lambda>m. bm_action m = ''replace'') modifications;
            it' = mutationItem\<lparr>item_addedBodyParts := [], item_isActive := False\<rparr>
        in if hasReplaceActions
           then (case removeMutation_restore modifications addedParts
                        (sys_bodyParts (actor_system a)) [] of
                   (bodyParts', allRemovedIds) \<Rightarrow>
                     Some (allRemovedIds, it', updateItem it' (setBodyParts bodyParts' a)))
           else (case removeMutation_remove depth addedParts [] a of
                   None \<Rightarrow> None
                 | Some (allRemovedIds, a') \<Rightarrow> Some (allRemovedIds, it', updateItem it' a')))"

text \<open>\<open>getNaturalWeapon\<close>: the virtual weapon an active mutation grants to a bare part.\<close>

record virtualWeapon =
  vw_id :: string
  vw_name :: string
  vw_type :: string
  vw_damage :: string
  vw_pv :: int
  vw_weaponType :: string

definition naturalWeaponDamage :: "item \<Rightarrow> naturalWeaponSpec \<Rightarrow> string" where
  "naturalWeaponDamage it naturalWeapon =
     (let d0 = getNaturalWeaponDamage (item_name it) (item_level it);
          d1 = (case d0 of
                  None \<Rightarrow> nw_damageFormula naturalWeapon
                | Some d \<Rightarrow> if d = [] then nw_damageFormula naturalWeapon else d)
      in if CHR ''d'' \<notin> set d1
         then (case getNaturalWeaponDamage d1 (item_level it) of
                 None \<Rightarrow> ''1d4''
               | Some d \<Rightarrow> if d = [] then ''1d4'' else d)
         else d1)"

definition naturalWeaponPV :: "item \<Rightarrow> naturalWeaponSpec \<Rightarrow> int" where
  "naturalWeaponPV it naturalWeapon =
     (case map_of naturalWeaponFormulas (item_name it) of
        None \<Rightarrow> 0
      | Some f \<Rightarrow>
         (case nwf_pvFormula f of
            None \<Rightarrow> 0
          | Some pf \<Rightarrow>
              if mentionsLevel pf then evalFormula pf (item_level it)
              else jsOr (nw_pv naturalWeapon) 0))"

fun getNaturalWeapon_loop :: "item list \<Rightarrow> string \<Rightarrow> bodyPart \<Rightarrow> virtualWeapon option" where
  "getNaturalWeapon_loop [] bodyPartId bodyPart = None"
| "getNaturalWeapon_loop (it # rest) bodyPartId bodyPart =
     (case (if isActiveMutation it then item_naturalWeapon it else None) of
        None \<Rightarrow> getNaturalWeapon_loop rest bodyPartId bodyPart
      | Some naturalWeapon \<Rightarrow>
          if nw_enabled naturalWeapon \<and> bp_type bodyPart \<in> set (nw_bodyPartTypes naturalWeapon)
          then Some \<lparr>vw_id = ''natural-'' @ item_id it @ ''-'' @ bodyPartId,
                     vw_name = item_name it, vw_type = ''weapon'',
                     vw_damage = naturalWeaponDamage it naturalWeapon,
                     vw_pv = naturalWeaponPV it naturalWeapon,
                     vw_weaponType = ''melee''\<rparr>
          else getNaturalWeapon_loop rest bodyPartId bodyPart)"

definition getNaturalWeapon :: "actor \<Rightarrow> string \<Rightarrow> virtualWeapon option" where
  "getNaturalWeapon a bodyPartId =
     (case map_of (sys_bodyParts (actor_system a)) bodyPartId of
        None \<Rightarrow> None
      | Some bodyPart \<Rightarrow>
          if bp_equipment bodyPart \<noteq> None then None
          else getNaturalWeapon_loop (actor_items a) bodyPartId bodyPart)"

section \<open>Auxiliary notions for the properties\<close>

text \<open>
  Transitive descendants of a part, as the hierarchy defines them: the ids on the children list
  of the part, and those on the children list of any descendant that is present.
\<close>

inductive_set descendants :: "bodyParts \<Rightarrow> string \<Rightarrow> string set"
  for bodyParts :: bodyParts and i :: string where
  child: "map_of bodyParts i = Some p \<Longrightarrow> c \<in> set (bp_children p) \<Longrightarrow> c \<in> descendants bodyParts i"
| deeper: "d \<in> descendants bodyParts i \<Longrightarrow> map_of bodyParts d = Some p \<Longrightarrow>
     c \<in> set (bp_children p) \<Longrightarrow> c \<in> descendants bodyParts i"

text \<open>
  A forced die list lets a singlet return exactly when it holds a result other than 10.
\<close>

definition singletReturns :: "int list \<Rightarrow> bool" where
  "singletReturns dice = list_ex (\<lambda>d. d \<noteq> 10) dice"

text \<open>
  A hierarchy is acyclic when some height decreases from every part to each of its children;
  \<open>ranked\<close> checks a given height on every entry.
\<close>

definition ranked :: "(string \<Rightarrow> nat) \<Rightarrow> bodyParts \<Rightarrow> bool" where
  "ranked rank bodyParts =
     list_all (\<lambda>(i, p). list_all (\<lambda>c. rank c < rank i) (bp_children p)) bodyParts"

text \<open>
  The armor value as the spec words it: the parts are grouped by type, the armor values of
  every group are averaged, the averages are summed over the types present and the sum is
  rounded down, all in exact arithmetic.
\<close>

definition specArmorValue :: "item list \<Rightarrow> bodyPart list \<Rightarrow> int" where
  "specArmorValue items parts =
     \<lfloor>sum_list
        (map (\<lambda>t. (of_int (sum_list (map (partAV items) (filter (\<lambda>p. bp_type p = t) parts))) :: rat)
                   / of_nat (length (filter (\<lambda>p. bp_type p = t) parts)))
             (remdups (map bp_type parts)))\<rfloor>"

section \<open>Example data\<close>

text \<open>
  A small creature used to instantiate the properties: a body wearing a vest, a left arm with a
  bracer and a hand, and a bare right arm with a hand.
\<close>

definition examplePart ::
  "string \<Rightarrow> string \<Rightarrow> string option \<Rightarrow> string list \<Rightarrow> string option \<Rightarrow> bodyPart" where
  "examplePart i type parent children equipment =
     \<lparr>bp_id = i, bp_type = type, bp_variant = type, bp_laterality = [], bp_parent = parent,
      bp_children = children, bp_equipment = equipment,
      bp_properties = \<lparr>mortal = False, appendage = True, mobility = 0, usuallyOn = None,
                        attackChance = None\<rparr>,
      bp_chimeraOrigin = False, bp_naturalArmor = None, bp_hasWings = None,
      bp_offhandChance = None\<rparr>"

definition exampleBody :: bodyParts where
  "exampleBody =
     [(''b'', examplePart ''b'' ''Body'' None [''al'', ''ar''] (Some ''vest'')),
      (''al'', examplePart ''al'' ''Arm'' (Some ''b'') [''hl''] (Some ''bracer'')),
      (''hl'', examplePart ''hl'' ''Hand'' (Some ''al'') [] None),
      (''ar'', examplePart ''ar'' ''Arm'' (Some ''b'') [''hr''] None),
      (''hr'', examplePart ''hr'' ''Hand'' (Some ''ar'') [] None)]"

definition exampleRank :: "string \<Rightarrow> nat" where
  "exampleRank i = (if i = ''b'' then 2 else if i = ''al'' \<or> i = ''ar'' then 1 else 0)"

text \<open>
  The items of the example creature: a vest (armor value 3) on the body, a bracer (armor value
  4, dodge modifier -1) on the left arm, and two active mutations: one granting a movement and
  a quickness bonus, one granting a natural weapon to arms.
\<close>

definition exampleItem :: "string \<Rightarrow> string \<Rightarrow> string \<Rightarrow> item" where
  "exampleItem i name type =
     \<lparr>item_id = i, item_name = name, item_type = type, item_weight = 0, item_quantity = 1,
      item_av = 0, item_dvModifier = 0, item_pv = 0, item_damage = [], item_slot = [],
      item_equipped = False, item_level = 1, item_isActive = False, item_statBonuses = None,
      item_bodyModifications = [], item_addedBodyParts = [], item_naturalWeapon = None,
      item_providesArmor = None, item_resourceTracking = None, item_blockedEquipment = None\<rparr>"

definition exampleItems :: "item list" where
  "exampleItems =
     [(exampleItem ''vest'' ''Vest'' ''armor'')\<lparr>item_av := 3, item_equipped := True\<rparr>,
      (exampleItem ''bracer'' ''Bracer'' ''armor'')
        \<lparr>item_av := 4, item_dvModifier := - 1, item_equipped := True\<rparr>,
      (exampleItem ''fleet'' ''Fleet'' ''mutation'')
        \<lparr>item_isActive := True,
         item_statBonuses :=
           Some \<lparr>sb_carryCapacity = Some \<lparr>sb_type = ''flat'', sb_value = 30, sb_formula = None\<rparr>,
                 sb_movementSpeed =
                   Some \<lparr>sb_type = ''percent'', sb_value = 10, sb_formula = None\<rparr>,
                 sb_quickness = Some \<lparr>sb_type = ''flat'', sb_value = 2, sb_formula = None\<rparr>\<rparr>\<rparr>,
      (exampleItem ''spikes'' ''Spikes'' ''mutation'')
        \<lparr>item_isActive := True,
         item_naturalWeapon :=
           Some \<lparr>nw_enabled = True, nw_bodyPartTypes = [''Arm''], nw_damageFormula = ''1d4'',
                 nw_pv = 0, nw_attackChance = 20\<rparr>\<rparr>]"

definition exampleSystem :: systemData where
  "exampleSystem =
     \<lparr>sys_attributes =
        \<lparr>strength = \<lparr>attr_value = 16, attr_mod = 0\<rparr>,
         agility = \<lparr>attr_value = 16, attr_mod = 0\<rparr>,
         toughness = \<lparr>attr_value = 18, attr_mod = 1\<rparr>,
         intelligence = \<lparr>attr_value = 16, attr_mod = 0\<rparr>,
         willpower = \<lparr>attr_value = 16, attr_mod = 0\<rparr>,
         ego = \<lparr>attr_value = 16, attr_mod = 0\<rparr>\<rparr>,
      sys_level = 2,
      sys_health =
        \<lparr>health_value = 30, health_max = 22,
         hpHistory = Some [\<lparr>hp_level = 1, hp_roll = 18, hp_modifier = 1, hp_total = 18\<rparr>,
                           \<lparr>hp_level = 2, hp_roll = 3, hp_modifier = 1, hp_total = 4\<rparr>]\<rparr>,
      sys_combat = \<lparr>combat_dv = 0, combat_pv = 0, combat_ma = 0, combat_av = 0,
                    mainHandId = None\<rparr>,
      sys_carryCapacity = \<lparr>cc_max = 0, cc_current = 0, cc_overburdened = False\<rparr>,
      sys_skillPoints = \<lparr>sp_total = 0, sp_spent = 0, sp_available = 0\<rparr>,
      sys_hpRegenRate = 0, sys_reductionPercent = 0, sys_minimumCooldown = 0,
      sys_movement = None, sys_quickness = None, sys_characterType = ''Mutant'',
      sys_bodyParts = exampleBody, sys_bodyRoot = ''b'', sys_multiweaponTier = None\<rparr>"

definition exampleActor :: actor where
  "exampleActor =
     \<lparr>actor_name = ''Example'', actor_type = ''character'', actor_system = exampleSystem,
      actor_items = exampleItems\<rparr>"

definition exampleWorld :: world where
  "exampleWorld = \<lparr>bodyPartIdCounter = 0, now = 0, randoms = []\<rparr>"

text \<open>
  A creature with a third arm and hand, as a chimera mutation grows them: the body wears armor
  of value 1, one of the three arms a bracer of value 2, one of the three hands a glove of
  value 1.
\<close>

definition threeArmedBody :: bodyParts where
  "threeArmedBody =
     [(''b'', examplePart ''b'' ''Body'' None [''a1'', ''a2'', ''a3''] (Some ''vest1'')),
      (''a1'', examplePart ''a1'' ''Arm'' (Some ''b'') [''h1''] (Some ''bracer2'')),
      (''h1'', examplePart ''h1'' ''Hand'' (Some ''a1'') [] (Some ''glove1'')),
      (''a2'', examplePart ''a2'' ''Arm'' (Some ''b'') [''h2''] None),
      (''h2'', examplePart ''h2'' ''Hand'' (Some ''a2'') [] None),
      (''a3'', examplePart ''a3'' ''Arm'' (Some ''b'') [''h3''] None),
      (''h3'', examplePart ''h3'' ''Hand'' (Some ''a3'') [] None)]"

definition threeArmedItems :: "item list" where
  "threeArmedItems =
     [(exampleItem ''vest1'' ''Vest'' ''armor'')\<lparr>item_av := 1, item_equipped := True\<rparr>,
      (exampleItem ''bracer2'' ''Bracer'' ''armor'')\<lparr>item_av := 2, item_equipped := True\<rparr>,
      (exampleItem ''glove1'' ''Glove'' ''armor'')\<lparr>item_av := 1, item_equipped := True\<rparr>]"

definition threeArmedActor :: actor where
  "threeArmedActor =
     \<lparr>actor_name = ''Three arms'', actor_type = ''character'',
      actor_system = exampleSystem\<lparr>sys_bodyParts := threeArmedBody\<rparr>,
      actor_items = threeArmedItems\<rparr>"

text \<open>
  Two mutation items as the catalogue has them: Burrowing Claws replaces hands by burrowing
  claws and keeps their equipment; a tail mutation adds a tail to the body root.
\<close>

definition exampleClaws :: item where
  "exampleClaws =
     (exampleItem ''claws'' ''Burrowing Claws'' ''mutation'')
       \<lparr>item_bodyModifications :=
          [\<lparr>bm_action = ''replace'', bm_targetType = ''Hand'', bm_newType = ''BurrowingClaw'',
            bm_preserveEquipment = True, bm_parent = None, bm_type = [], bm_variant = None,
            bm_laterality = [], bm_withChildren = [], bm_chimeraOrigin = False\<rparr>]\<rparr>"

definition exampleTail :: item where
  "exampleTail =
     (exampleItem ''tail'' ''Stinger'' ''mutation'')
       \<lparr>item_bodyModifications :=
          [\<lparr>bm_action = ''add'', bm_targetType = [], bm_newType = [],
            bm_preserveEquipment = False, bm_parent = Some ''Body'', bm_type = ''Tail'',
            bm_variant = Some ''Tail'', bm_laterality = [], bm_withChildren = [],
            bm_chimeraOrigin = False\<rparr>]\<rparr>"

text \<open>Two applications in a row, the second on what the first returned.\<close>

definition applyMutationTwice ::
  "item \<Rightarrow> world \<Rightarrow> actor \<Rightarrow> error + ((string list \<times> item \<times> world \<times> actor)
     \<times> (string list \<times> item \<times> world \<times> actor))" where
  "applyMutationTwice mutationItem w a =
     (case applyMutation mutationItem w a of
        Inl e \<Rightarrow> Inl e
      | Inr (ids1, it1, w1, a1) \<Rightarrow>
         (case applyMutation it1 w1 a1 of
            Inl e \<Rightarrow> Inl e
          | Inr r2 \<Rightarrow> Inr ((ids1, it1, w1, a1), r2)))"

declare resolvePenetration_loop.simps [simp del]

section \<open>Properties of the penetration dice\<close>

lemma rollQudSinglet_loop_returns:
  "(rollQudSinglet_loop dice tot rs \<noteq> None) = singletReturns dice"
  unfolding singletReturns_def
  by (induction dice arbitrary: tot rs) (auto simp: Let_def)

lemma rollQudSinglet_returns: "(rollQudSinglet dice \<noteq> None) = singletReturns dice"
  using rollQudSinglet_loop_returns[of dice 0 "[]"]
  by (auto simp: rollQudSinglet_def split: option.splits)

lemma rollQudTriplet_returns:
  "singletReturns d1 \<Longrightarrow> singletReturns d2 \<Longrightarrow> singletReturns d3 \<Longrightarrow>
   \<exists>t. rollQudTriplet pv av (d1, d2, d3) = Some t"
  using rollQudSinglet_returns[of d1] rollQudSinglet_returns[of d2] rollQudSinglet_returns[of d3]
  by (auto simp: rollQudTriplet_def split: option.splits)

lemma rollQudTriplet_fields:
  "rollQudTriplet pv av d = Some t \<Longrightarrow> attackerPV t = pv \<and> defenderAV t = av"
  by (auto simp: rollQudTriplet_def evaluateTriplet_def Let_def split: option.splits prod.splits)

text \<open>
  C4, as the code has it. A raw 10 is modified to 8 and explodes, so the forced sequence
  10, 10, 3 is read in full and sums to 8 + 8 + 1 = 17 with \<open>exploded\<close> set; the total is
  not 13.
\<close>

theorem rollQudSinglet_forced_10_10_3:
  "rollQudSinglet [10, 10, 3] =
     Some \<lparr>total = 17,
           rolls = [\<lparr>raw = 10, modified = 8\<rparr>, \<lparr>raw = 10, modified = 8\<rparr>,
                    \<lparr>raw = 3, modified = 1\<rparr>],
           exploded = True, explosionChain = [10, 10, 3]\<rparr>"
  by (simp add: rollQudSinglet_def)

text \<open>C4 as the claim words it fails: the total of the singlet forced to 10, 10, 3 is not 13.\<close>

theorem rollQudSinglet_forced_not_13:
  "map_option total (rollQudSinglet [10, 10, 3]) \<noteq> Some 13"
  by (simp add: rollQudSinglet_def)

text \<open>
  C2. For any penetration value, armor value and three singlet results, the triplet counts
  the singlets with total + PV \<ge> AV, yields one penetration when at least one of them passes
  and none otherwise, and sets \<open>allPassed\<close> exactly when all three pass. Whenever the three
  singlets return, \<open>rollQudTriplet\<close> returns that evaluation of them. With PV 10, AV 6 and
  totals -2, 5, 1 all three pass: one penetration, \<open>allPassed\<close> set.
\<close>

theorem rollQudTriplet_passes:
  "singletsPassed (evaluateTriplet pv av [s1, s2, s3]) =
      length (filter (\<lambda>s. total s + pv \<ge> av) [s1, s2, s3])
   \<and> penetrations (evaluateTriplet pv av [s1, s2, s3]) =
      (if total s1 + pv \<ge> av \<or> total s2 + pv \<ge> av \<or> total s3 + pv \<ge> av then 1 else 0)
   \<and> allPassed (evaluateTriplet pv av [s1, s2, s3]) =
      (total s1 + pv \<ge> av \<and> total s2 + pv \<ge> av \<and> total s3 + pv \<ge> av)
   \<and> (rollQudSinglet d1 = Some s1 \<and> rollQudSinglet d2 = Some s2 \<and> rollQudSinglet d3 = Some s3
        \<longrightarrow> rollQudTriplet pv av (d1, d2, d3) = Some (evaluateTriplet pv av [s1, s2, s3]))
   \<and> (total s1 = - 2 \<and> total s2 = 5 \<and> total s3 = 1
        \<longrightarrow> singletsPassed (evaluateTriplet 10 6 [s1, s2, s3]) = 3
          \<and> penetrations (evaluateTriplet 10 6 [s1, s2, s3]) = 1
          \<and> allPassed (evaluateTriplet 10 6 [s1, s2, s3]))"
  by (simp add: evaluateTriplet_def rollQudTriplet_def Let_def)

text \<open>
  Two instances: three singlets rolled from the dice 3; 10, 4; 1 against PV 10 and AV 10 (two
  pass), and the totals -2, 5, 1 of the claim against PV 10 and AV 6 (all pass).
\<close>

theorem rollQudTriplet_passes_witness:
  "rollQudSinglet [3] = Some \<lparr>total = 1, rolls = [\<lparr>raw = 3, modified = 1\<rparr>],
                              exploded = False, explosionChain = [3]\<rparr>
   \<and> rollQudSinglet [10, 4] =
       Some \<lparr>total = 10, rolls = [\<lparr>raw = 10, modified = 8\<rparr>, \<lparr>raw = 4, modified = 2\<rparr>],
             exploded = True, explosionChain = [10, 4]\<rparr>
   \<and> rollQudSinglet [1] = Some \<lparr>total = - 1, rolls = [\<lparr>raw = 1, modified = - 1\<rparr>],
                              exploded = False, explosionChain = [1]\<rparr>
   \<and> map_option singletsPassed (rollQudTriplet 10 10 ([3], [10, 4], [1])) = Some 2
   \<and> map_option penetrations (rollQudTriplet 10 10 ([3], [10, 4], [1])) = Some 1
   \<and> map_option allPassed (rollQudTriplet 10 10 ([3], [10, 4], [1])) = Some False
   \<and> total \<lparr>total = - 2, rolls = [], exploded = False, explosionChain = []\<rparr> = - 2
   \<and> total \<lparr>total = 5, rolls = [], exploded = False, explosionChain = []\<rparr> = 5
   \<and> total \<lparr>total = 1, rolls = [], exploded = False, explosionChain = []\<rparr> = 1
   \<and> singletsPassed (evaluateTriplet 10 6
         [\<lparr>total = - 2, rolls = [], exploded = False, explosionChain = []\<rparr>,
          \<lparr>total = 5, rolls = [], exploded = False, explosionChain = []\<rparr>,
          \<lparr>total = 1, rolls = [], exploded = False, explosionChain = []\<rparr>]) = 3
   \<and> penetrations (evaluateTriplet 10 6
         [\<lparr>total = - 2, rolls = [], exploded = False, explosionChain = []\<rparr>,
          \<lparr>total = 5, rolls = [], exploded = False, explosionChain = []\<rparr>,
          \<lparr>total = 1, rolls = [], exploded = False, explosionChain = []\<rparr>]) = 1
   \<and> allPassed (evaluateTriplet 10 6
         [\<lparr>total = - 2, rolls = [], exploded = False, explosionChain = []\<rparr>,
          \<lparr>total = 5, rolls = [], exploded = False, explosionChain = []\<rparr>,
          \<lparr>total = 1, rolls = [], exploded = False, explosionChain = []\<rparr>])"
  using rollQudTriplet_passes
    [of 10 10
        "\<lparr>total = 1, rolls = [\<lparr>raw = 3, modified = 1\<rparr>], exploded = False,
          explosionChain = [3]\<rparr>"
        "\<lparr>total = 10, rolls = [\<lparr>raw = 10, modified = 8\<rparr>, \<lparr>raw = 4, modified = 2\<rparr>],
          exploded = True, explosionChain = [10, 4]\<rparr>"
        "\<lparr>total = - 1, rolls = [\<lparr>raw = 1, modified = - 1\<rparr>], exploded = False,
          explosionChain = [1]\<rparr>"
        "[3]" "[10, 4]" "[1]"]
    rollQudTriplet_passes
    [of 10 6
        "\<lparr>total = - 2, rolls = [], exploded = False, explosionChain = []\<rparr>"
        "\<lparr>total = 5, rolls = [], exploded = False, explosionChain = []\<rparr>"
        "\<lparr>total = 1, rolls = [], exploded = False, explosionChain = []\<rparr>"
        "[]" "[]" "[]"]
  by (simp add: rollQudSinglet_def rollQudTriplet_def evaluateTriplet_def Let_def)

lemma resolvePenetration_loop_stopped:
  "resolvePenetration_loop av cpv tp ts False dice = Some (cpv, tp, ts)"
  by (simp add: resolvePenetration_loop.simps)

lemma resolvePenetration_loop_spec:
  "resolvePenetration_loop av cpv tp ts True dice = Some (fpv, ftp, fts) \<Longrightarrow>
   \<exists>new. fts = ts @ new
     \<and> map attackerPV new = map (\<lambda>i. cpv - 2 * int i) [0..<length new]
     \<and> list_all (\<lambda>t. defenderAV t = av \<and> attackerPV t > 0) new
     \<and> list_all allPassed (butlast new)
     \<and> (if new = [] then cpv \<le> 0
         else \<not> allPassed (last new) \<or> cpv - 2 * int (length new) \<le> 0)
     \<and> ftp = tp + sum_list (map penetrations new)
     \<and> fpv = cpv - 2 * int (length (filter allPassed new))
     \<and> length new \<le> length dice
     \<and> (\<forall>i<length new. rollQudTriplet (cpv - 2 * int i) av (dice ! i) = Some (new ! i))"
proof (induction dice arbitrary: cpv tp ts)
  case Nil
  then show ?case
    by (auto simp: resolvePenetration_loop.simps split: if_splits)
next
  case (Cons d rest)
  show ?case
  proof (cases "cpv > 0")
    case False
    with Cons.prems show ?thesis
      by (auto simp: resolvePenetration_loop.simps)
  next
    case True
    with Cons.prems obtain t where t: "rollQudTriplet cpv av d = Some t"
      by (auto simp: resolvePenetration_loop.simps split: option.splits)
    note tf = rollQudTriplet_fields[OF t]
    show ?thesis
    proof (cases "allPassed t")
      case ap: True
      with Cons.prems True t have
        "resolvePenetration_loop av (cpv - 2) (tp + penetrations t) (ts @ [t]) True rest
           = Some (fpv, ftp, fts)"
        by (simp add: resolvePenetration_loop.simps[of av cpv])
      from Cons.IH[OF this] obtain new where new:
        "fts = (ts @ [t]) @ new"
        "map attackerPV new = map (\<lambda>i. (cpv - 2) - 2 * int i) [0..<length new]"
        "list_all (\<lambda>t. defenderAV t = av \<and> attackerPV t > 0) new"
        "list_all allPassed (butlast new)"
        "(if new = [] then cpv - 2 \<le> 0
          else \<not> allPassed (last new) \<or> (cpv - 2) - 2 * int (length new) \<le> 0)"
        "ftp = (tp + penetrations t) + sum_list (map penetrations new)"
        "fpv = (cpv - 2) - 2 * int (length (filter allPassed new))"
        "length new \<le> length rest"
        "\<forall>i<length new. rollQudTriplet ((cpv - 2) - 2 * int i) av (rest ! i) = Some (new ! i)"
        by blast
      have "map attackerPV (t # new) = map (\<lambda>i. cpv - 2 * int i) [0..<length (t # new)]"
        using new(2) tf by (simp add: map_upt_Suc del: upt_Suc)
      moreover have "list_all allPassed (butlast (t # new))"
        using new(4) ap by simp
      moreover have "(if t # new = [] then cpv \<le> 0
          else \<not> allPassed (last (t # new)) \<or> cpv - 2 * int (length (t # new)) \<le> 0)"
        using new(5) by (auto split: if_splits)
      moreover have "\<forall>i<length (t # new).
          rollQudTriplet (cpv - 2 * int i) av ((d # rest) ! i) = Some ((t # new) ! i)"
      proof (intro allI impI)
        fix i assume i: "i < length (t # new)"
        show "rollQudTriplet (cpv - 2 * int i) av ((d # rest) ! i) = Some ((t # new) ! i)"
        proof (cases i)
          case 0
          then show ?thesis using t by simp
        next
          case (Suc j)
          with i new(9) have "rollQudTriplet ((cpv - 2) - 2 * int j) av (rest ! j) = Some (new ! j)"
            by simp
          moreover have "(cpv - 2) - 2 * int j = cpv - 2 * int (Suc j)" by simp
          ultimately show ?thesis using Suc by simp
        qed
      qed
      ultimately show ?thesis
        using new(1,3,6,7,8) tf True ap
        by (intro exI[of _ "t # new"]) simp
    next
      case nap: False
      with Cons.prems True t have "fpv = cpv" "ftp = tp + penetrations t" "fts = ts @ [t]"
        by (simp_all add: resolvePenetration_loop.simps[of av cpv]
              resolvePenetration_loop_stopped)
      then show ?thesis
        using tf True nap t by (intro exI[of _ "[t]"]) simp
    qed
  qed
qed

lemma resolvePenetration_loop_total:
  "list_all (\<lambda>(d1, d2, d3). singletReturns d1 \<and> singletReturns d2 \<and> singletReturns d3) dice \<Longrightarrow>
   (c \<Longrightarrow> cpv \<le> 2 * int (length dice)) \<Longrightarrow>
   resolvePenetration_loop av cpv tp ts c dice \<noteq> None"
proof (induction dice arbitrary: cpv tp ts c)
  case Nil
  then show ?case by (cases c) (auto simp: resolvePenetration_loop.simps)
next
  case (Cons d rest)
  obtain d1 d2 d3 where d: "d = (d1, d2, d3)" by (cases d) auto
  show ?case
  proof (cases "c \<and> cpv > 0")
    case False
    then show ?thesis by (auto simp: resolvePenetration_loop.simps)
  next
    case True
    from Cons.prems(1) d obtain t where t: "rollQudTriplet cpv av d = Some t"
      using rollQudTriplet_returns[of d1 d2 d3 cpv av] by auto
    have r: "list_all (\<lambda>(d1, d2, d3). singletReturns d1 \<and> singletReturns d2 \<and> singletReturns d3)
               rest"
      using Cons.prems(1) by simp
    show ?thesis
    proof (cases "allPassed t")
      case ap: True
      have "resolvePenetration_loop av (cpv - 2) (tp + penetrations t) (ts @ [t]) c rest \<noteq> None"
        using Cons.prems(2) True by (intro Cons.IH[OF r]) simp
      then show ?thesis using True t ap
        by (simp add: resolvePenetration_loop.simps[of av cpv])
    next
      case nap: False
      then show ?thesis using True t
        by (simp add: resolvePenetration_loop.simps[of av cpv] resolvePenetration_loop_stopped)
    qed
  qed
qed

text \<open>
  C3. Whenever the penetration sequence returns, the i-th triplet it recorded (counting from 0)
  is what \<open>rollQudTriplet\<close> returns on the i-th dice at PV = initial PV - 2 i, which was
  positive, against the given armor value; every triplet but the last had all three singlets
  passing; no triplet is rolled exactly when the initial PV is zero or below, and otherwise
  the last triplet either was not \<open>allPassed\<close> or left a PV of zero or below; the total is
  the sum of the triplets' penetrations and the final PV is the initial PV less 2 for every
  \<open>allPassed\<close> triplet. The sequence does return: forced dice on which every singlet ends,
  for at least PV / 2 triplets, are enough.
\<close>

theorem resolvePenetration_sequence:
  "(resolvePenetration pv av dice = Some r \<longrightarrow>
      initialPV r = pv
    \<and> length (triplets r) \<le> length dice
    \<and> (\<forall>i<length (triplets r).
          rollQudTriplet (pv - 2 * int i) av (dice ! i) = Some (triplets r ! i))
    \<and> map attackerPV (triplets r) = map (\<lambda>i. pv - 2 * int i) [0..<length (triplets r)]
    \<and> list_all (\<lambda>t. defenderAV t = av \<and> attackerPV t > 0) (triplets r)
    \<and> list_all allPassed (butlast (triplets r))
    \<and> ((triplets r = []) = (pv \<le> 0))
    \<and> (triplets r \<noteq> [] \<longrightarrow>
         \<not> allPassed (last (triplets r)) \<or> pv - 2 * int (length (triplets r)) \<le> 0)
    \<and> totalPenetrations r = sum_list (map penetrations (triplets r))
    \<and> finalPV r = pv - 2 * int (length (filter allPassed (triplets r))))
   \<and> (list_all (\<lambda>(d1, d2, d3). singletReturns d1 \<and> singletReturns d2 \<and> singletReturns d3) dice
        \<and> pv \<le> 2 * int (length dice)
      \<longrightarrow> resolvePenetration pv av dice \<noteq> None)"
proof (intro conjI impI)
  assume "list_all (\<lambda>(d1, d2, d3). singletReturns d1 \<and> singletReturns d2 \<and> singletReturns d3) dice
        \<and> pv \<le> 2 * int (length dice)"
  then have "resolvePenetration_loop av pv 0 [] True dice \<noteq> None"
    by (intro resolvePenetration_loop_total) simp_all
  then show "resolvePenetration pv av dice \<noteq> None"
    by (auto simp: resolvePenetration_def)
next
  assume a: "resolvePenetration pv av dice = Some r"
  then obtain fpv ftp fts where
    l: "resolvePenetration_loop av pv 0 [] True dice = Some (fpv, ftp, fts)"
    and r: "r = \<lparr>triplets = fts, totalPenetrations = ftp, initialPV = pv, finalPV = fpv\<rparr>"
    by (auto simp: resolvePenetration_def split: option.splits)
  from resolvePenetration_loop_spec[OF l] have s:
    "map attackerPV fts = map (\<lambda>i. pv - 2 * int i) [0..<length fts]"
    "list_all (\<lambda>t. defenderAV t = av \<and> attackerPV t > 0) fts"
    "list_all allPassed (butlast fts)"
    "(if fts = [] then pv \<le> 0 else \<not> allPassed (last fts) \<or> pv - 2 * int (length fts) \<le> 0)"
    "ftp = sum_list (map penetrations fts)"
    "fpv = pv - 2 * int (length (filter allPassed fts))"
    "length fts \<le> length dice"
    "\<forall>i<length fts. rollQudTriplet (pv - 2 * int i) av (dice ! i) = Some (fts ! i)"
    by auto
  show "initialPV r = pv" by (simp add: r)
  show "length (triplets r) \<le> length dice" using s(7) by (simp add: r)
  show "\<forall>i<length (triplets r).
          rollQudTriplet (pv - 2 * int i) av (dice ! i) = Some (triplets r ! i)"
    using s(8) by (simp add: r)
  show "map attackerPV (triplets r) = map (\<lambda>i. pv - 2 * int i) [0..<length (triplets r)]"
    using s(1) by (simp add: r)
  show "list_all (\<lambda>t. defenderAV t = av \<and> attackerPV t > 0) (triplets r)"
    using s(2) by (simp add: r)
  show "list_all allPassed (butlast (triplets r))"
    using s(3) by (simp add: r)
  show "(triplets r = []) = (pv \<le> 0)"
  proof (cases fts)
    case Nil
    then show ?thesis using s(4) by (simp add: r)
  next
    case (Cons t rest)
    then have "attackerPV t = pv" "attackerPV t > 0"
      using s(1,2) by (simp_all add: upt_rec)
    then show ?thesis using Cons by (simp add: r)
  qed
  show "totalPenetrations r = sum_list (map penetrations (triplets r))"
    using s(5) by (simp add: r)
  show "finalPV r = pv - 2 * int (length (filter allPassed (triplets r)))"
    using s(6) by (simp add: r)
  assume "triplets r \<noteq> []"
  then show "\<not> allPassed (last (triplets r)) \<or> pv - 2 * int (length (triplets r)) \<le> 0"
    using s(4) by (simp add: r)
qed

text \<open>
  Two instances. At PV 5 against AV 6 the first triplet (totals 3, 3, 3) passes altogether and
  the second, rolled at PV 3 (totals -1, 3, 3), passes twice: the sequence halts there with two
  penetrations and final PV 3, and the third dice are not read. At PV 3 against AV 20 the first
  triplet fails altogether: one triplet, no penetration, final PV 3.
\<close>

theorem resolvePenetration_sequence_witness:
  "list_all (\<lambda>(d1, d2, d3). singletReturns d1 \<and> singletReturns d2 \<and> singletReturns d3)
     [([5], [5], [5]), ([1], [5], [5]), ([5], [5], [5])]
   \<and> (5::int) \<le> 2 * int (length [([5::int], [5::int], [5::int]), ([1], [5], [5]),
                                     ([5], [5], [5])])
   \<and> resolvePenetration 5 6 [([5], [5], [5]), ([1], [5], [5]), ([5], [5], [5])] \<noteq> None
   \<and> map_option (\<lambda>r. map Some (triplets r))
        (resolvePenetration 5 6 [([5], [5], [5]), ([1], [5], [5]), ([5], [5], [5])])
      = Some [rollQudTriplet 5 6 ([5], [5], [5]), rollQudTriplet 3 6 ([1], [5], [5])]
   \<and> map_option (map singletsPassed \<circ> triplets)
        (resolvePenetration 5 6 [([5], [5], [5]), ([1], [5], [5]), ([5], [5], [5])])
      = Some [3, 2]
   \<and> map_option (map allPassed \<circ> triplets)
        (resolvePenetration 5 6 [([5], [5], [5]), ([1], [5], [5]), ([5], [5], [5])])
      = Some [True, False]
   \<and> map_option totalPenetrations
        (resolvePenetration 5 6 [([5], [5], [5]), ([1], [5], [5]), ([5], [5], [5])])
      = Some 2
   \<and> map_option finalPV
        (resolvePenetration 5 6 [([5], [5], [5]), ([1], [5], [5]), ([5], [5], [5])])
      = Some 3
   \<and> resolvePenetration 3 20 [([5], [5], [5]), ([5], [5], [5])] \<noteq> None
   \<and> map_option (map allPassed \<circ> triplets)
        (resolvePenetration 3 20 [([5], [5], [5]), ([5], [5], [5])]) = Some [False]
   \<and> map_option totalPenetrations
        (resolvePenetration 3 20 [([5], [5], [5]), ([5], [5], [5])]) = Some 0
   \<and> map_option finalPV
        (resolvePenetration 3 20 [([5], [5], [5]), ([5], [5], [5])]) = Some 3"
  using resolvePenetration_sequence
    [of 5 6 "[([5], [5], [5]), ([1], [5], [5]), ([5], [5], [5])]"
        "the (resolvePenetration 5 6 [([5], [5], [5]), ([1], [5], [5]), ([5], [5], [5])])"]
    resolvePenetration_sequence
    [of 3 20 "[([5], [5], [5]), ([5], [5], [5])]"
        "the (resolvePenetration 3 20 [([5], [5], [5]), ([5], [5], [5])])"]
  by (simp add: resolvePenetration_def resolvePenetration_loop.simps rollQudTriplet_def
        rollQudSinglet_def evaluateTriplet_def singletReturns_def Let_def)

section \<open>Properties of the body hierarchy\<close>

lemma those_eq_Some: "(those xs = Some ys) = (xs = map Some ys)"
  by (induction xs arbitrary: ys) (auto split: option.splits)

lemma those_eq_None: "(those xs = None) = (None \<in> set xs)"
  by (induction xs) (auto split: option.splits)

lemma descendants_trans:
  "x \<in> descendants bps c \<Longrightarrow> c \<in> descendants bps i \<Longrightarrow> x \<in> descendants bps i"
  by (induction rule: descendants.induct) (auto intro: descendants.intros)

lemma collectDescendants_children:
  assumes "collectDescendants (Suc d) bps i = Some ds" "map_of bps i = Some p"
  shows "\<exists>f. (\<forall>c \<in> set (bp_children p). collectDescendants d bps c = Some (f c))
           \<and> ds = concat (map (\<lambda>c. c # f c) (bp_children p))"
proof -
  from assms obtain yss where
    y: "map (\<lambda>childId. map_option (Cons childId) (collectDescendants d bps childId)) (bp_children p)
          = map Some yss" and ds: "ds = concat yss"
    by (auto simp: those_eq_Some)
  let ?f = "\<lambda>c. the (collectDescendants d bps c)"
  have a: "\<forall>c \<in> set (bp_children p). collectDescendants d bps c = Some (?f c)"
  proof
    fix c assume "c \<in> set (bp_children p)"
    then have "map_option (Cons c) (collectDescendants d bps c) \<in> set (map Some yss)"
      using y[symmetric] by (simp only: set_map) blast
    then show "collectDescendants d bps c = Some (?f c)" by auto
  qed
  have "map Some yss = map (\<lambda>c. Some (c # ?f c)) (bp_children p)"
    unfolding y[symmetric] using a by (intro map_cong) auto
  then have "map the (map Some yss) = map the (map (\<lambda>c. Some (c # ?f c)) (bp_children p))"
    by simp
  then have "yss = map (\<lambda>c. c # ?f c) (bp_children p)"
    by (simp add: comp_def)
  with a ds show ?thesis by (intro exI[of _ ?f]) simp
qed

lemma collectDescendants_absent: "map_of bps i = None \<Longrightarrow> collectDescendants (Suc d) bps i = Some []"
  by simp

lemma collectDescendants_sound:
  "collectDescendants d bps i = Some ds \<Longrightarrow> set ds \<subseteq> descendants bps i"
proof (induction d arbitrary: i ds)
  case 0
  then show ?case by simp
next
  case (Suc d)
  show ?case
  proof (cases "map_of bps i")
    case None
    with Suc.prems show ?thesis by simp
  next
    case (Some p)
    from collectDescendants_children[OF Suc.prems Some] obtain f where
      f: "\<forall>c \<in> set (bp_children p). collectDescendants d bps c = Some (f c)"
      and ds: "ds = concat (map (\<lambda>c. c # f c) (bp_children p))" by blast
    show ?thesis
    proof
      fix x assume "x \<in> set ds"
      then obtain c where c: "c \<in> set (bp_children p)" and x: "x = c \<or> x \<in> set (f c)"
        using ds by auto
      have cd: "c \<in> descendants bps i" using Some c by (rule descendants.child)
      from x show "x \<in> descendants bps i"
      proof
        assume "x = c" with cd show ?thesis by simp
      next
        assume "x \<in> set (f c)"
        with Suc.IH f c have "x \<in> descendants bps c" by blast
        then show ?thesis using cd by (rule descendants_trans)
      qed
    qed
  qed
qed

lemma collectDescendants_closed:
  "collectDescendants d bps i = Some ds \<Longrightarrow> x \<in> set ds \<Longrightarrow> map_of bps x = Some q \<Longrightarrow>
   set (bp_children q) \<subseteq> set ds"
proof (induction d arbitrary: i ds)
  case 0
  then show ?case by simp
next
  case (Suc d)
  show ?case
  proof (cases "map_of bps i")
    case None
    with Suc.prems show ?thesis by simp
  next
    case (Some p)
    from collectDescendants_children[OF Suc.prems(1) Some] obtain f where
      f: "\<forall>c \<in> set (bp_children p). collectDescendants d bps c = Some (f c)"
      and ds: "ds = concat (map (\<lambda>c. c # f c) (bp_children p))" by blast
    from Suc.prems(2) ds obtain c where
      c: "c \<in> set (bp_children p)" and x: "x = c \<or> x \<in> set (f c)" by auto
    have sub: "set (f c) \<subseteq> set ds" using c ds by auto
    from f c have fc: "collectDescendants d bps c = Some (f c)" by blast
    from x have "set (bp_children q) \<subseteq> set (f c)"
    proof
      assume xc: "x = c"
      from fc obtain d' where d': "d = Suc d'" by (cases d) auto
      from collectDescendants_children[OF fc[unfolded d'] Suc.prems(3)[unfolded xc]]
      show ?thesis by auto
    next
      assume "x \<in> set (f c)"
      from Suc.IH[OF fc this Suc.prems(3)] show ?thesis .
    qed
    with sub show ?thesis by blast
  qed
qed

lemma collectDescendants_complete:
  assumes "collectDescendants d bps i = Some ds"
  shows "descendants bps i \<subseteq> set ds"
proof
  fix x assume "x \<in> descendants bps i"
  then show "x \<in> set ds"
  proof (induction rule: descendants.induct)
    case (child p c)
    from assms obtain d' where d': "d = Suc d'" by (cases d) auto
    from collectDescendants_children[OF assms[unfolded d'] child(1)] child(2) show ?case by auto
  next
    case (deeper y p c)
    from collectDescendants_closed[OF assms deeper(4) deeper(2)] deeper(3) show ?case by blast
  qed
qed

lemma collectDescendants_set:
  "collectDescendants d bps i = Some ds \<Longrightarrow> set ds = descendants bps i"
  using collectDescendants_sound collectDescendants_complete by blast

lemma ranked_child:
  "ranked rank bps \<Longrightarrow> map_of bps i = Some p \<Longrightarrow> c \<in> set (bp_children p) \<Longrightarrow> rank c < rank i"
  by (auto simp: ranked_def list_all_iff dest!: map_of_SomeD)

lemma collectDescendants_returns:
  "ranked rank bps \<Longrightarrow> rank i < d \<Longrightarrow> collectDescendants d bps i \<noteq> None"
proof (induction d arbitrary: i)
  case 0
  then show ?case by simp
next
  case (Suc d)
  show ?case
  proof (cases "map_of bps i")
    case None
    then show ?thesis by simp
  next
    case (Some p)
    have "\<forall>c \<in> set (bp_children p). collectDescendants d bps c \<noteq> None"
    proof
      fix c assume c: "c \<in> set (bp_children p)"
      from ranked_child[OF Suc.prems(1) Some c] Suc.prems(2) have "rank c < d" by simp
      from Suc.IH[OF Suc.prems(1) this] show "collectDescendants d bps c \<noteq> None" .
    qed
    then have "None \<notin> set (map (\<lambda>childId. map_option (Cons childId)
                   (collectDescendants d bps childId)) (bp_children p))"
      by auto
    then show ?thesis using Some by (simp add: those_eq_None)
  qed
qed

lemma map_of_foldl_delete:
  "map_of (foldl (\<lambda>bps i. AList.delete i bps) bps ids) =
     (\<lambda>k. if k \<in> set ids then None else map_of bps k)"
  by (induction ids arbitrary: bps) (auto simp: AList.delete_conv' fun_eq_iff)

lemma removeBodyPart_map:
  assumes "map_of bodyParts partId = Some part"
    and "removeBodyPart depth bodyParts partId = Some (removedIds, bodyParts')"
  shows "map_of bodyParts' i =
          (if i \<in> set removedIds then None
           else if bp_parent part = Some i
             then map_option (\<lambda>parent. parent\<lparr>bp_children :=
                     filter (\<lambda>c. c \<noteq> partId) (bp_children parent)\<rparr>) (map_of bodyParts i)
           else map_of bodyParts i)"
  using assms
  by (auto simp: removeBodyPart_def Let_def map_of_foldl_delete AList.update_conv'
      AList.delete_conv' split: option.splits)

text \<open>
  C9. Removing an absent id returns the empty list and the map as it was, at any stack bound.
  Removing a present id, whenever the call returns, returns the id followed by exactly its
  transitive descendants, and the map afterwards has none of these ids, has the id filtered
  out of the children of the part's parent, and is unchanged at every other id. The call does
  return on an acyclic hierarchy: a stack bound above the part's height is enough.
\<close>

theorem removeBodyPart_cascade:
  "(map_of bodyParts partId = None \<longrightarrow>
      removeBodyPart depth bodyParts partId = Some ([], bodyParts))
   \<and> (map_of bodyParts partId = Some part
        \<and> removeBodyPart depth bodyParts partId = Some (removedIds, bodyParts') \<longrightarrow>
          hd removedIds = partId
        \<and> set removedIds = insert partId (descendants bodyParts partId)
        \<and> (\<forall>i. map_of bodyParts' i =
              (if i \<in> set removedIds then None
               else if bp_parent part = Some i
                 then map_option (\<lambda>parent. parent\<lparr>bp_children :=
                         filter (\<lambda>c. c \<noteq> partId) (bp_children parent)\<rparr>) (map_of bodyParts i)
               else map_of bodyParts i)))
   \<and> (ranked rank bodyParts \<and> rank partId < depth \<longrightarrow>
        removeBodyPart depth bodyParts partId \<noteq> None)"
proof (intro conjI impI allI)
  assume "map_of bodyParts partId = None"
  then show "removeBodyPart depth bodyParts partId = Some ([], bodyParts)"
    by (simp add: removeBodyPart_def)
next
  assume "ranked rank bodyParts \<and> rank partId < depth"
  then have "collectDescendants depth bodyParts partId \<noteq> None"
    using collectDescendants_returns[of rank bodyParts partId depth] by blast
  then show "removeBodyPart depth bodyParts partId \<noteq> None"
    by (auto simp: removeBodyPart_def Let_def split: option.splits)
next
  assume a: "map_of bodyParts partId = Some part
        \<and> removeBodyPart depth bodyParts partId = Some (removedIds, bodyParts')"
  then obtain ds where ds: "collectDescendants depth bodyParts partId = Some ds"
    and r: "removedIds = partId # ds"
    by (auto simp: removeBodyPart_def Let_def split: option.splits)
  show "hd removedIds = partId" by (simp add: r)
  show "set removedIds = insert partId (descendants bodyParts partId)"
    using collectDescendants_set[OF ds] by (simp add: r)
  fix i
  show "map_of bodyParts' i =
          (if i \<in> set removedIds then None
           else if bp_parent part = Some i
             then map_option (\<lambda>parent. parent\<lparr>bp_children :=
                     filter (\<lambda>c. c \<noteq> partId) (bp_children parent)\<rparr>) (map_of bodyParts i)
           else map_of bodyParts i)"
    using a by (intro removeBodyPart_map) auto
qed

theorem removeBodyPart_cascade_witness:
  "map_of exampleBody ''zz'' = None
   \<and> removeBodyPart 3 exampleBody ''zz'' = Some ([], exampleBody)
   \<and> map_of exampleBody ''al'' \<noteq> None
   \<and> ranked exampleRank exampleBody \<and> exampleRank ''al'' < 3
   \<and> removeBodyPart 3 exampleBody ''al'' \<noteq> None
   \<and> map_option fst (removeBodyPart 3 exampleBody ''al'') = Some [''al'', ''hl'']
   \<and> set [''al'', ''hl''] = insert ''al'' (descendants exampleBody ''al'')
   \<and> map_option (map (\<lambda>(k, p). (k, bp_children p)) \<circ> snd) (removeBodyPart 3 exampleBody ''al'') =
       Some [(''b'', [''ar'']), (''ar'', [''hr'']), (''hr'', [])]"
proof -
  let ?r = "the (removeBodyPart 3 exampleBody ''al'')"
  have a: "map_of exampleBody ''zz'' = None" by code_simp
  have b: "map_of exampleBody ''al'' = Some (the (map_of exampleBody ''al''))" by code_simp
  have c: "removeBodyPart 3 exampleBody ''al'' = Some (fst ?r, snd ?r)" by code_simp
  have d: "ranked exampleRank exampleBody \<and> exampleRank ''al'' < 3" by code_simp
  have e: "fst ?r = [''al'', ''hl'']" by code_simp
  have f: "map_option (map (\<lambda>(k, p). (k, bp_children p)) \<circ> snd)
             (removeBodyPart 3 exampleBody ''al'') =
       Some [(''b'', [''ar'']), (''ar'', [''hr'']), (''hr'', [])]"
    by code_simp
  have g: "map_option fst (removeBodyPart 3 exampleBody ''al'') = Some [''al'', ''hl'']"
    by code_simp
  have h: "map_of exampleBody ''al'' \<noteq> None" by code_simp
  note t = removeBodyPart_cascade[of exampleBody _ 3 "the (map_of exampleBody ''al'')"
      "fst ?r" "snd ?r" exampleRank]
  have a': "removeBodyPart 3 exampleBody ''zz'' = Some ([], exampleBody)"
    by (rule t[THEN conjunct1, THEN mp, OF a])
  have "hd (fst ?r) = ''al''
      \<and> set (fst ?r) = insert ''al'' (descendants exampleBody ''al'')
      \<and> (\<forall>i. map_of (snd ?r) i =
              (if i \<in> set (fst ?r) then None
               else if bp_parent (the (map_of exampleBody ''al'')) = Some i
                 then map_option (\<lambda>parent. parent\<lparr>bp_children :=
                         filter (\<lambda>c. c \<noteq> ''al'') (bp_children parent)\<rparr>) (map_of exampleBody i)
               else map_of exampleBody i))"
    by (rule t[THEN conjunct2, THEN conjunct1, THEN mp, OF conjI[OF b c]])
  then have "set (fst ?r) = insert ''al'' (descendants exampleBody ''al'')"
    by (rule conjunct1[OF conjunct2])
  then have i: "set [''al'', ''hl''] = insert ''al'' (descendants exampleBody ''al'')"
    by (simp only: e)
  have j: "removeBodyPart 3 exampleBody ''al'' \<noteq> None"
    by (rule t[THEN conjunct2, THEN conjunct2, THEN mp, OF d])
  show ?thesis
    by (intro conjI) (rule a a' h d[THEN conjunct1] d[THEN conjunct2] j g i f)+
qed

section \<open>Properties of the derived statistics\<close>

text \<open>
  C1, evaluated. On the three-armed creature the per-type averages are 1 for the body, 2/3 for
  the arms and 1/3 for the hands; their sum is 2, and so is the armor value as the spec words
  it. The source adds the averages as doubles: 1 + 0.6666666666666666 is 1.6666666666666665,
  adding 0.3333333333333333 gives 1.9999999999999998, and the stored armor value is 1, also
  after the whole pipeline. On the example creature (arms 4 and 0, body 3) both give 5.
\<close>

theorem applyEquipmentBonuses_rounds_below:
  "map (\<lambda>p. (bp_type p, partAV threeArmedItems p)) (map snd threeArmedBody) =
     [(''Body'', 1), (''Arm'', 2), (''Hand'', 1), (''Arm'', 0), (''Hand'', 0), (''Arm'', 0),
      (''Hand'', 0)]
   \<and> specArmorValue threeArmedItems (map snd (sys_bodyParts (actor_system threeArmedActor))) = 2
   \<and> combat_av (sys_combat (applyEquipmentBonuses threeArmedItems (actor_system threeArmedActor)))
       = 1
   \<and> combat_av (sys_combat (actor_system (prepareCharacterData threeArmedActor))) = 1
   \<and> jsAdd (jsAdd (jsAdd 0 1) (jsDiv 2 3)) (jsDiv 1 3) = 9007199254740991 / 4503599627370496
   \<and> specArmorValue exampleItems (map snd (sys_bodyParts exampleSystem)) = 5
   \<and> combat_av (sys_combat (applyEquipmentBonuses exampleItems exampleSystem)) = 5
   \<and> combat_av (sys_combat (actor_system (prepareCharacterData exampleActor))) = 5
   \<and> combat_dv (sys_combat (actor_system (prepareCharacterData exampleActor))) = 6 + 0 + (- 1)"
proof -
  have a: "map (\<lambda>p. (bp_type p, partAV threeArmedItems p)) (map snd threeArmedBody) =
     [(''Body'', 1), (''Arm'', 2), (''Hand'', 1), (''Arm'', 0), (''Hand'', 0), (''Arm'', 0),
      (''Hand'', 0)]"
    by code_simp
  have b: "specArmorValue threeArmedItems (map snd (sys_bodyParts (actor_system threeArmedActor)))
             = 2"
    by code_simp
  have c: "combat_av (sys_combat (applyEquipmentBonuses threeArmedItems
             (actor_system threeArmedActor))) = 1"
    by code_simp
  have d: "combat_av (sys_combat (actor_system (prepareCharacterData threeArmedActor))) = 1"
    by code_simp
  have e: "jsAdd (jsAdd (jsAdd 0 1) (jsDiv 2 3)) (jsDiv 1 3)
             = 9007199254740991 / 4503599627370496"
    by code_simp
  have f: "specArmorValue exampleItems (map snd (sys_bodyParts exampleSystem)) = 5"
    by code_simp
  have g: "combat_av (sys_combat (applyEquipmentBonuses exampleItems exampleSystem)) = 5"
    by code_simp
  have h: "combat_av (sys_combat (actor_system (prepareCharacterData exampleActor))) = 5"
    by code_simp
  have i: "combat_dv (sys_combat (actor_system (prepareCharacterData exampleActor)))
             = 6 + 0 + (- 1)"
    by code_simp
  show ?thesis
    by (intro conjI) (rule a b c d e f g h i)+
qed

lemma calculateHP_loop_eq:
  "calculateHP_loop m es c =
     (map (\<lambda>e. e\<lparr>hp_modifier := m, hp_total := hp_roll e + m\<rparr>) es,
      c + sum_list (map (\<lambda>e. hp_roll e + m) es))"
  by (induction es arbitrary: c) (auto simp: Let_def)

lemma calculateHP_ledger:
  assumes "sys_level s \<noteq> 1"
  shows "hpHistory (sys_health (calculateHP s)) =
           Some (take 1 (case hpHistory (sys_health s) of None \<Rightarrow> [] | Some es \<Rightarrow> es)
                 @ map (\<lambda>e. e\<lparr>hp_modifier := attr_mod (toughness (sys_attributes s)),
                               hp_total := hp_roll e + attr_mod (toughness (sys_attributes s))\<rparr>)
                     (drop 1 (case hpHistory (sys_health s) of None \<Rightarrow> [] | Some es \<Rightarrow> es)))"
    and "health_max (sys_health (calculateHP s)) =
           attr_value (toughness (sys_attributes s))
           + sum_list (map (\<lambda>e. hp_roll e + attr_mod (toughness (sys_attributes s)))
                (drop 1 (case hpHistory (sys_health s) of None \<Rightarrow> [] | Some es \<Rightarrow> es)))"
    and "health_value (sys_health (calculateHP s)) =
           min (health_value (sys_health s)) (health_max (sys_health (calculateHP s)))"
  using assms by (auto simp: calculateHP_def Let_def calculateHP_loop_eq)

lemma calculateHP_cong:
  "sys_level s = sys_level t \<Longrightarrow> sys_attributes s = sys_attributes t \<Longrightarrow>
   sys_health s = sys_health t \<Longrightarrow> sys_health (calculateHP s) = sys_health (calculateHP t)"
  by (simp add: calculateHP_def Let_def split: prod.splits)

lemma applyEquipmentBonuses_health [simp]:
  "sys_health (applyEquipmentBonuses items s) = sys_health s"
  by (simp add: applyEquipmentBonuses_def Let_def split: prod.splits)

lemma calculateCombatStats_health:
  "sys_health (calculateCombatStats items s) = sys_health (calculateHP s)"
  unfolding calculateCombatStats_def Let_def applyEquipmentBonuses_health
  by (rule calculateHP_cong) simp_all

lemma calculateCarryCapacity_health [simp]:
  "sys_health (calculateCarryCapacity items s) = sys_health s"
  by (simp add: calculateCarryCapacity_def Let_def)

lemma calculateSkillPoints_health [simp]:
  "sys_health (calculateSkillPoints s) = sys_health s"
  by (simp add: calculateSkillPoints_def Let_def)

lemma calculateHPRegeneration_health [simp]:
  "sys_health (calculateHPRegeneration s) = sys_health s"
  by (simp add: calculateHPRegeneration_def Let_def)

lemma calculateCooldownReduction_health [simp]:
  "sys_health (calculateCooldownReduction s) = sys_health s"
  by (simp add: calculateCooldownReduction_def Let_def)

lemma applyCarryCapacityBonus_health [simp]:
  "sys_health (applyCarryCapacityBonus b l s) = sys_health s"
  by (simp add: applyCarryCapacityBonus_def Let_def split: option.splits)

lemma applyMovementSpeedBonus_health [simp]:
  "sys_health (applyMovementSpeedBonus b l s) = sys_health s"
  by (simp add: applyMovementSpeedBonus_def Let_def split: option.splits)

lemma applyQuicknessBonus_health [simp]:
  "sys_health (applyQuicknessBonus b l s) = sys_health s"
  by (simp add: applyQuicknessBonus_def Let_def split: option.splits)

lemma applyMutationBonuses_health [simp]:
  "sys_health (applyMutationBonuses items s) = sys_health s"
  by (induction items arbitrary: s) (auto split: option.splits)

lemma calculateOffhandChances_health [simp]:
  "sys_health (calculateOffhandChances items s) = sys_health s"
  by (simp add: calculateOffhandChances_def)

lemma calculateNaturalArmor_system:
  "actor_system (calculateNaturalArmor a) =
     (actor_system a)\<lparr>sys_bodyParts := sys_bodyParts (actor_system (calculateNaturalArmor a))\<rparr>"
  by (simp add: calculateNaturalArmor_def Let_def split: prod.splits)

lemma prepareCharacterData_health:
  "sys_health (actor_system (prepareCharacterData a)) =
   sys_health (calculateHP (calculateAttributeModifiers (actor_system a)))"
proof -
  let ?a1 = "a\<lparr>actor_system := calculateAttributeModifiers (actor_system a)\<rparr>"
  have "sys_health (actor_system (prepareCharacterData a)) =
        sys_health (calculateHP (actor_system (calculateNaturalArmor ?a1)))"
    by (simp add: prepareCharacterData_def Let_def calculateCombatStats_health)
  also have "\<dots> = sys_health (calculateHP (actor_system ?a1))"
    by (rule calculateHP_cong) (subst calculateNaturalArmor_system, simp)+
  finally show ?thesis by simp
qed

text \<open>
  C5. On a recomputation at level 2 or above, the ledger keeps its first entry and every later
  entry keeps its level and roll and gets the current toughness modifier (computed from the
  current toughness value) as its modifier and roll + modifier as its total; the maximum is the
  toughness value plus the sum over the later entries of roll + modifier; and the current hit
  points are lowered to the maximum when they exceed it.
\<close>

theorem calculateHP_ledger_recomputed:
  assumes "2 \<le> sys_level (actor_system a)"
  shows
    "let s = actor_system a;
         toughValue = attr_value (toughness (sys_attributes s));
         toughMod = (toughValue - 16) div 2;
         history = (case hpHistory (sys_health s) of None \<Rightarrow> [] | Some es \<Rightarrow> es);
         h' = sys_health (actor_system (prepareCharacterData a))
     in hpHistory h' =
          Some (take 1 history
                @ map (\<lambda>e. e\<lparr>hp_modifier := toughMod, hp_total := hp_roll e + toughMod\<rparr>)
                    (drop 1 history))
      \<and> health_max h' = toughValue + sum_list (map (\<lambda>e. hp_roll e + toughMod) (drop 1 history))
      \<and> health_value h' =
          (if health_value (sys_health s) > health_max h' then health_max h'
           else health_value (sys_health s))"
proof -
  let ?s1 = "calculateAttributeModifiers (actor_system a)"
  have l: "sys_level ?s1 \<noteq> 1" using assms by (simp add: calculateAttributeModifiers_def Let_def)
  have m: "attr_mod (toughness (sys_attributes ?s1)) =
             (attr_value (toughness (sys_attributes (actor_system a))) - 16) div 2"
    "attr_value (toughness (sys_attributes ?s1)) =
             attr_value (toughness (sys_attributes (actor_system a)))"
    "sys_health ?s1 = sys_health (actor_system a)"
    by (simp_all add: calculateAttributeModifiers_def Let_def)
  show ?thesis
    unfolding Let_def prepareCharacterData_health
    using calculateHP_ledger[OF l] unfolding m
    by (simp add: min_def)
qed

theorem calculateHP_ledger_recomputed_witness:
  "2 \<le> sys_level (actor_system exampleActor)
   \<and> hpHistory (sys_health (actor_system (prepareCharacterData exampleActor))) =
       Some [\<lparr>hp_level = 1, hp_roll = 18, hp_modifier = 1, hp_total = 18\<rparr>,
             \<lparr>hp_level = 2, hp_roll = 3, hp_modifier = 1, hp_total = 4\<rparr>]
   \<and> health_max (sys_health (actor_system (prepareCharacterData exampleActor))) = 22
   \<and> health_value (sys_health (actor_system exampleActor)) = 30
   \<and> health_value (sys_health (actor_system (prepareCharacterData exampleActor))) = 22
   \<and> hpHistory (sys_health (actor_system (prepareCharacterData
         (exampleActor\<lparr>actor_system := exampleSystem\<lparr>sys_attributes :=
            (sys_attributes exampleSystem)\<lparr>toughness := \<lparr>attr_value = 20, attr_mod = 1\<rparr>\<rparr>\<rparr>\<rparr>)))) =
       Some [\<lparr>hp_level = 1, hp_roll = 18, hp_modifier = 1, hp_total = 18\<rparr>,
             \<lparr>hp_level = 2, hp_roll = 3, hp_modifier = 2, hp_total = 5\<rparr>]
   \<and> health_max (sys_health (actor_system (prepareCharacterData
         (exampleActor\<lparr>actor_system := exampleSystem\<lparr>sys_attributes :=
            (sys_attributes exampleSystem)\<lparr>toughness := \<lparr>attr_value = 20, attr_mod = 1\<rparr>\<rparr>\<rparr>\<rparr>)))) =
       25"
proof -
  have h: "2 \<le> sys_level (actor_system exampleActor)" by code_simp
  have v: "health_value (sys_health (actor_system exampleActor)) = 30" by code_simp
  have e1: "hpHistory (sys_health (actor_system (prepareCharacterData exampleActor))) =
       Some [\<lparr>hp_level = 1, hp_roll = 18, hp_modifier = 1, hp_total = 18\<rparr>,
             \<lparr>hp_level = 2, hp_roll = 3, hp_modifier = 1, hp_total = 4\<rparr>]"
    by code_simp
  have e2: "health_max (sys_health (actor_system (prepareCharacterData exampleActor))) = 22"
    by code_simp
  have e3: "hpHistory (sys_health (actor_system (prepareCharacterData
         (exampleActor\<lparr>actor_system := exampleSystem\<lparr>sys_attributes :=
            (sys_attributes exampleSystem)\<lparr>toughness := \<lparr>attr_value = 20, attr_mod = 1\<rparr>\<rparr>\<rparr>\<rparr>)))) =
       Some [\<lparr>hp_level = 1, hp_roll = 18, hp_modifier = 1, hp_total = 18\<rparr>,
             \<lparr>hp_level = 2, hp_roll = 3, hp_modifier = 2, hp_total = 5\<rparr>]"
    by code_simp
  have e4: "health_max (sys_health (actor_system (prepareCharacterData
         (exampleActor\<lparr>actor_system := exampleSystem\<lparr>sys_attributes :=
            (sys_attributes exampleSystem)\<lparr>toughness := \<lparr>attr_value = 20, attr_mod = 1\<rparr>\<rparr>\<rparr>\<rparr>)))) =
       25"
    by code_simp
  from calculateHP_ledger_recomputed[OF h]
  have "health_value (sys_health (actor_system (prepareCharacterData exampleActor))) =
        (if health_value (sys_health (actor_system exampleActor))
              > health_max (sys_health (actor_system (prepareCharacterData exampleActor)))
         then health_max (sys_health (actor_system (prepareCharacterData exampleActor)))
         else health_value (sys_health (actor_system exampleActor)))"
    by (simp only: Let_def)
  then have e5: "health_value (sys_health (actor_system (prepareCharacterData exampleActor))) = 22"
    by (simp only: e2 v) simp
  show ?thesis
    by (intro conjI) (rule h e1 e2 v e5 e3 e4)+
qed

text \<open>
  C6, evaluated on the example creature. A second run of the pipeline on the state the first
  run left starts the carry capacity afresh, so its mutation bonus is counted once; the
  movement and quickness buckets are not started afresh, so their bonuses double.
\<close>

theorem prepareCharacterData_twice_accumulates:
  "cc_max (sys_carryCapacity (actor_system (prepareCharacterData exampleActor))) = 270
   \<and> cc_max (sys_carryCapacity (actor_system
         (prepareCharacterData (prepareCharacterData exampleActor)))) = 270
   \<and> sys_movement (actor_system (prepareCharacterData exampleActor)) = Some 10
   \<and> sys_movement (actor_system (prepareCharacterData (prepareCharacterData exampleActor)))
       = Some 20
   \<and> sys_quickness (actor_system (prepareCharacterData exampleActor)) = Some 2
   \<and> sys_quickness (actor_system (prepareCharacterData (prepareCharacterData exampleActor)))
       = Some 4
   \<and> prepareCharacterData (prepareCharacterData exampleActor) \<noteq> prepareCharacterData exampleActor"
proof -
  have c1: "cc_max (sys_carryCapacity (actor_system (prepareCharacterData exampleActor))) = 270"
    by code_simp
  have c2: "cc_max (sys_carryCapacity (actor_system
         (prepareCharacterData (prepareCharacterData exampleActor)))) = 270"
    by code_simp
  have m1: "sys_movement (actor_system (prepareCharacterData exampleActor)) = Some 10"
    by code_simp
  have m2: "sys_movement (actor_system (prepareCharacterData (prepareCharacterData exampleActor)))
       = Some 20"
    by code_simp
  have q1: "sys_quickness (actor_system (prepareCharacterData exampleActor)) = Some 2"
    by code_simp
  have q2: "sys_quickness (actor_system (prepareCharacterData (prepareCharacterData exampleActor)))
       = Some 4"
    by code_simp
  have d: "prepareCharacterData (prepareCharacterData exampleActor)
             \<noteq> prepareCharacterData exampleActor"
  proof
    assume "prepareCharacterData (prepareCharacterData exampleActor)
              = prepareCharacterData exampleActor"
    then have "sys_movement (actor_system (prepareCharacterData (prepareCharacterData exampleActor)))
                 = sys_movement (actor_system (prepareCharacterData exampleActor))"
      by (rule arg_cong)
    then show False by (simp only: m1 m2) simp
  qed
  show ?thesis
    by (intro conjI) (rule c1 c2 m1 m2 q1 q2 d)+
qed

section \<open>Properties of mutations and natural weapons\<close>

lemma applyReplace_ids:
  "snd (applyReplace m parts) = map fst (filter (\<lambda>(k, p). bp_type p = bm_targetType m) parts)"
  by (simp add: applyReplace_def)

lemma applyReplace_keys: "map fst (fst (applyReplace m parts)) = map fst parts"
  by (auto simp: applyReplace_def)

lemma applyReplace_types:
  "map (\<lambda>(k, p). (k, bp_type p)) (fst (applyReplace m parts)) =
   map (\<lambda>(k, p). (k, if bp_type p = bm_targetType m then bm_newType m else bp_type p)) parts"
  by (auto simp: applyReplace_def)

lemma tracked_iff:
  assumes "distinct (map fst parts)" "(k, p) \<in> set parts"
  shows "(k \<in> set (snd (applyReplace m parts))) = (bp_type p = bm_targetType m)"
proof
  assume "k \<in> set (snd (applyReplace m parts))"
  then obtain q where q: "(k, q) \<in> set parts" "bp_type q = bm_targetType m"
    by (auto simp: applyReplace_ids)
  with assms have "q = p" by (meson eq_key_imp_eq_value)
  with q show "bp_type p = bm_targetType m" by simp
next
  assume "bp_type p = bm_targetType m"
  with assms(2) show "k \<in> set (snd (applyReplace m parts))"
    by (force simp: applyReplace_ids)
qed

lemma restore_after_replace:
  assumes "distinct (map fst parts)"
  shows "map (\<lambda>(k, p). (k, if bp_type p = bm_newType m \<and> k \<in> set (snd (applyReplace m parts))
                             then p\<lparr>bp_type := bm_targetType m\<rparr> else p))
           (fst (applyReplace m parts)) =
         map (\<lambda>(k, p). (k, if bp_type p = bm_targetType m \<and> \<not> bm_preserveEquipment m
                             then p\<lparr>bp_equipment := None\<rparr> else p)) parts"
proof -
  have "\<And>k p. (k, p) \<in> set parts \<Longrightarrow>
     (let p' = (if bp_type p = bm_targetType m
                then p\<lparr>bp_type := bm_newType m,
                        bp_equipment := (if bm_preserveEquipment m then bp_equipment p else None)\<rparr>
                else p)
      in if bp_type p' = bm_newType m \<and> k \<in> set (snd (applyReplace m parts))
         then p'\<lparr>bp_type := bm_targetType m\<rparr> else p') =
     (if bp_type p = bm_targetType m \<and> \<not> bm_preserveEquipment m
      then p\<lparr>bp_equipment := None\<rparr> else p)"
    using tracked_iff[OF assms, of _ _ m] by (auto simp: Let_def)
  then show ?thesis
    unfolding applyReplace_def fst_conv
    by (auto simp: Let_def applyReplace_def[symmetric] intro!: map_cong)
qed

lemma restore_ids:
  assumes "distinct (map fst parts)"
  shows "map fst (filter (\<lambda>(k, p). bp_type p = bm_newType m \<and> k \<in> set (snd (applyReplace m parts)))
           (fst (applyReplace m parts))) = snd (applyReplace m parts)"
proof -
  have "filter ((\<lambda>(k, p). bp_type p = bm_newType m \<and> k \<in> set (snd (applyReplace m parts)))
          \<circ> (\<lambda>(partId, part).
             (partId,
              if bp_type part = bm_targetType m
              then part\<lparr>bp_type := bm_newType m,
                        bp_equipment := (if bm_preserveEquipment m then bp_equipment part
                                         else None)\<rparr>
              else part))) parts =
        filter (\<lambda>(k, p). bp_type p = bm_targetType m) parts"
    using tracked_iff[OF assms, of _ _ m] by (intro filter_cong) auto
  then show ?thesis
    by (simp add: applyReplace_ids) (simp add: applyReplace_def filter_map comp_def case_prod_unfold)
qed

lemma applyMutation_replace:
  assumes "item_type it = ''mutation''" "item_bodyModifications it = [m]"
    "bm_action m = ''replace''"
  shows "applyMutation it w a =
     Inr (snd (applyReplace m (sys_bodyParts (actor_system a))),
          it\<lparr>item_addedBodyParts := snd (applyReplace m (sys_bodyParts (actor_system a))),
             item_isActive := True\<rparr>,
          w,
          updateItem (it\<lparr>item_addedBodyParts := snd (applyReplace m (sys_bodyParts (actor_system a))),
                         item_isActive := True\<rparr>)
            (setBodyParts (fst (applyReplace m (sys_bodyParts (actor_system a)))) a))"
  using assms by (simp add: applyMutation_def Let_def split: prod.splits)

lemma removeMutation_replace:
  assumes "item_type it = ''mutation''" "item_bodyModifications it = [m]"
    "bm_action m = ''replace''"
  shows "removeMutation depth it a =
     Some (map fst (filter (\<lambda>(k, p). bp_type p = bm_newType m \<and> k \<in> set (item_addedBodyParts it))
                      (sys_bodyParts (actor_system a))),
           it\<lparr>item_addedBodyParts := [], item_isActive := False\<rparr>,
           updateItem (it\<lparr>item_addedBodyParts := [], item_isActive := False\<rparr>)
             (setBodyParts
                (map (\<lambda>(k, p). (k, if bp_type p = bm_newType m \<and> k \<in> set (item_addedBodyParts it)
                                    then p\<lparr>bp_type := bm_targetType m\<rparr> else p))
                   (sys_bodyParts (actor_system a))) a))"
  using assms by (simp add: removeMutation_def Let_def)

lemma updateItem_system [simp]: "actor_system (updateItem it a) = actor_system a"
  by (simp add: updateItem_def)

lemma setBodyParts_parts [simp]: "sys_bodyParts (actor_system (setBodyParts parts a)) = parts"
  by (simp add: setBodyParts_def)

text \<open>
  C8. For a mutation whose one body modification is a replace (of Hand by BurrowingClaw, or of
  any type by any other), on a hierarchy with one entry per id: applying it and then removing
  it both succeed, track and return the ids of the parts that had the target type, create no
  id (the id counter is untouched) and leave the hierarchy with the same ids in the same
  order and every part at its original type. The parts themselves are as before, except that
  a replace that does not preserve equipment has cleared the equipment of the replaced parts;
  nothing else of the system data changes, so every reference to a part still has its part.
\<close>

theorem replace_round_trip:
  assumes "item_type it = ''mutation''"
    and "item_bodyModifications it = [m]"
    and "bm_action m = ''replace''"
    and "distinct (map fst (sys_bodyParts (actor_system a)))"
  shows "\<exists>ids it1 a1 it2 a2.
      applyMutation it w a = Inr (ids, it1, w, a1)
    \<and> removeMutation depth it1 a1 = Some (ids, it2, a2)
    \<and> ids = map fst (filter (\<lambda>(k, p). bp_type p = bm_targetType m) (sys_bodyParts (actor_system a)))
    \<and> map (\<lambda>(k, p). (k, bp_type p)) (sys_bodyParts (actor_system a1)) =
        map (\<lambda>(k, p). (k, if bp_type p = bm_targetType m then bm_newType m else bp_type p))
          (sys_bodyParts (actor_system a))
    \<and> sys_bodyParts (actor_system a2) =
        map (\<lambda>(k, p). (k, if bp_type p = bm_targetType m \<and> \<not> bm_preserveEquipment m
                            then p\<lparr>bp_equipment := None\<rparr> else p))
          (sys_bodyParts (actor_system a))
    \<and> map fst (sys_bodyParts (actor_system a2)) = map fst (sys_bodyParts (actor_system a))
    \<and> map (\<lambda>(k, p). (k, bp_type p)) (sys_bodyParts (actor_system a2)) =
        map (\<lambda>(k, p). (k, bp_type p)) (sys_bodyParts (actor_system a))
    \<and> actor_system a2 = (actor_system a)\<lparr>sys_bodyParts := sys_bodyParts (actor_system a2)\<rparr>
    \<and> it2 = it\<lparr>item_addedBodyParts := [], item_isActive := False\<rparr>"
proof -
  let ?parts = "sys_bodyParts (actor_system a)"
  let ?ids = "snd (applyReplace m ?parts)"
  let ?it1 = "it\<lparr>item_addedBodyParts := ?ids, item_isActive := True\<rparr>"
  let ?a1 = "updateItem ?it1 (setBodyParts (fst (applyReplace m ?parts)) a)"
  let ?it2 = "?it1\<lparr>item_addedBodyParts := [], item_isActive := False\<rparr>"
  let ?parts2 = "map (\<lambda>(k, p). (k, if bp_type p = bm_targetType m \<and> \<not> bm_preserveEquipment m
                            then p\<lparr>bp_equipment := None\<rparr> else p)) ?parts"
  let ?a2 = "updateItem ?it2 (setBodyParts ?parts2 ?a1)"
  have ap: "applyMutation it w a = Inr (?ids, ?it1, w, ?a1)"
    by (rule applyMutation_replace[OF assms(1,2,3)])
  have i1: "item_type ?it1 = ''mutation''" "item_bodyModifications ?it1 = [m]"
    "item_addedBodyParts ?it1 = ?ids"
    using assms(1,2) by simp_all
  have p1: "sys_bodyParts (actor_system ?a1) = fst (applyReplace m ?parts)" by simp
  have rm: "removeMutation depth ?it1 ?a1 = Some (?ids, ?it2, ?a2)"
    unfolding removeMutation_replace[OF i1(1,2) assms(3)] p1 i1(3)
      restore_after_replace[OF assms(4)] restore_ids[OF assms(4)]
    by simp
  have p2: "sys_bodyParts (actor_system ?a2) = ?parts2" by simp
  have k: "map fst ?parts2 = map fst ?parts" by auto
  have t: "map (\<lambda>(k, p). (k, bp_type p)) ?parts2 = map (\<lambda>(k, p). (k, bp_type p)) ?parts"
    by auto
  have s: "actor_system ?a2 = (actor_system a)\<lparr>sys_bodyParts := ?parts2\<rparr>"
    by (simp add: setBodyParts_def)
  have i2: "?it2 = it\<lparr>item_addedBodyParts := [], item_isActive := False\<rparr>" by simp
  show ?thesis
    apply (rule exI[of _ ?ids])
    apply (rule exI[of _ ?it1])
    apply (rule exI[of _ ?a1])
    apply (rule exI[of _ ?it2])
    apply (rule exI[of _ ?a2])
    apply (intro conjI)
            apply (rule ap)
           apply (rule rm)
          apply (rule applyReplace_ids)
         apply (simp only: p1 applyReplace_types)
        apply (rule p2)
       apply (simp only: p2 k)
      apply (simp only: p2 t)
     apply (simp add: setBodyParts_def)
    apply (rule i2)
    done
qed

theorem replace_round_trip_witness:
  "item_type exampleClaws = ''mutation''
   \<and> item_bodyModifications exampleClaws =
       [\<lparr>bm_action = ''replace'', bm_targetType = ''Hand'', bm_newType = ''BurrowingClaw'',
         bm_preserveEquipment = True, bm_parent = None, bm_type = [], bm_variant = None,
         bm_laterality = [], bm_withChildren = [], bm_chimeraOrigin = False\<rparr>]
   \<and> distinct (map fst (sys_bodyParts (actor_system exampleActor)))
   \<and> (\<exists>ids it1 a1 it2 a2.
        applyMutation exampleClaws exampleWorld exampleActor = Inr (ids, it1, exampleWorld, a1)
      \<and> removeMutation 5 it1 a1 = Some (ids, it2, a2)
      \<and> ids = [''hl'', ''hr'']
      \<and> map (\<lambda>(k, p). (k, bp_type p)) (sys_bodyParts (actor_system a1)) =
          [(''b'', ''Body''), (''al'', ''Arm''), (''hl'', ''BurrowingClaw''), (''ar'', ''Arm''),
           (''hr'', ''BurrowingClaw'')]
      \<and> map (\<lambda>(k, p). (k, bp_type p)) (sys_bodyParts (actor_system a2)) =
          [(''b'', ''Body''), (''al'', ''Arm''), (''hl'', ''Hand''), (''ar'', ''Arm''),
           (''hr'', ''Hand'')])"
proof -
  let ?m = "\<lparr>bm_action = ''replace'', bm_targetType = ''Hand'', bm_newType = ''BurrowingClaw'',
         bm_preserveEquipment = True, bm_parent = None, bm_type = [], bm_variant = None,
         bm_laterality = [], bm_withChildren = [], bm_chimeraOrigin = False\<rparr>"
  have h1: "item_type exampleClaws = ''mutation''" by code_simp
  have h2: "item_bodyModifications exampleClaws = [?m]" by code_simp
  have h3: "bm_action ?m = ''replace''" by simp
  have h4: "distinct (map fst (sys_bodyParts (actor_system exampleActor)))" by code_simp
  have e1: "map fst (filter (\<lambda>(k, p). bp_type p = bm_targetType ?m)
              (sys_bodyParts (actor_system exampleActor))) = [''hl'', ''hr'']"
    by code_simp
  have e2: "map (\<lambda>(k, p). (k, if bp_type p = bm_targetType ?m then bm_newType ?m else bp_type p))
              (sys_bodyParts (actor_system exampleActor)) =
          [(''b'', ''Body''), (''al'', ''Arm''), (''hl'', ''BurrowingClaw''), (''ar'', ''Arm''),
           (''hr'', ''BurrowingClaw'')]"
    by code_simp
  have e3: "map (\<lambda>(k, p). (k, bp_type p)) (sys_bodyParts (actor_system exampleActor)) =
          [(''b'', ''Body''), (''al'', ''Arm''), (''hl'', ''Hand''), (''ar'', ''Arm''),
           (''hr'', ''Hand'')]"
    by code_simp
  from replace_round_trip[OF h1 h2 h3 h4, of exampleWorld 5]
  obtain ids it1 a1 it2 a2 where r:
    "applyMutation exampleClaws exampleWorld exampleActor = Inr (ids, it1, exampleWorld, a1)"
    "removeMutation 5 it1 a1 = Some (ids, it2, a2)"
    "ids = map fst (filter (\<lambda>(k, p). bp_type p = bm_targetType ?m)
              (sys_bodyParts (actor_system exampleActor)))"
    "map (\<lambda>(k, p). (k, bp_type p)) (sys_bodyParts (actor_system a1)) =
        map (\<lambda>(k, p). (k, if bp_type p = bm_targetType ?m then bm_newType ?m else bp_type p))
          (sys_bodyParts (actor_system exampleActor))"
    "map (\<lambda>(k, p). (k, bp_type p)) (sys_bodyParts (actor_system a2)) =
        map (\<lambda>(k, p). (k, bp_type p)) (sys_bodyParts (actor_system exampleActor))"
    by blast
  have "\<exists>ids it1 a1 it2 a2.
        applyMutation exampleClaws exampleWorld exampleActor = Inr (ids, it1, exampleWorld, a1)
      \<and> removeMutation 5 it1 a1 = Some (ids, it2, a2)
      \<and> ids = [''hl'', ''hr'']
      \<and> map (\<lambda>(k, p). (k, bp_type p)) (sys_bodyParts (actor_system a1)) =
          [(''b'', ''Body''), (''al'', ''Arm''), (''hl'', ''BurrowingClaw''), (''ar'', ''Arm''),
           (''hr'', ''BurrowingClaw'')]
      \<and> map (\<lambda>(k, p). (k, bp_type p)) (sys_bodyParts (actor_system a2)) =
          [(''b'', ''Body''), (''al'', ''Arm''), (''hl'', ''Hand''), (''ar'', ''Arm''),
           (''hr'', ''Hand'')]"
    apply (rule exI[of _ ids])
    apply (rule exI[of _ it1])
    apply (rule exI[of _ a1])
    apply (rule exI[of _ it2])
    apply (rule exI[of _ a2])
    apply (intro conjI)
        apply (rule r(1))
       apply (rule r(2))
      apply (simp only: r(3) e1)
     apply (simp only: r(4) e2)
    apply (simp only: r(5) e3)
    done
  with h1 h2 h4 show ?thesis by blast
qed

lemma applyReplace_twice:
  "fst (applyReplace m (fst (applyReplace m parts))) = fst (applyReplace m parts)"
  by (auto simp: applyReplace_def)

text \<open>
  C7, as the code has it. \<open>applyMutation\<close> does not block a second application: the ids it
  returns, the ids it generates and the system data it leaves are the same whatever the
  mutation's active flag and whatever ids the mutation tracked before, so every application
  runs the body modifications again on the current hierarchy. For a mutation whose one body
  modification is a replace, a second application without removal leaves the hierarchy as the
  first one left it, with the ids it had before.
\<close>

theorem applyMutation_reapplied:
  "map_sum id (\<lambda>(ids, it', w', a'). (ids, w', actor_system a'))
      (applyMutation (it\<lparr>item_addedBodyParts := tracked, item_isActive := active\<rparr>) w a)
     = map_sum id (\<lambda>(ids, it', w', a'). (ids, w', actor_system a')) (applyMutation it w a)
   \<and> (item_type it = ''mutation'' \<and> item_bodyModifications it = [m] \<and> bm_action m = ''replace''
       \<longrightarrow> (\<exists>ids1 it1 a1 ids2 it2 a2.
             applyMutationTwice it w a = Inr ((ids1, it1, w, a1), (ids2, it2, w, a2))
           \<and> sys_bodyParts (actor_system a2) = sys_bodyParts (actor_system a1)
           \<and> map fst (sys_bodyParts (actor_system a1)) = map fst (sys_bodyParts (actor_system a))))"
proof (intro conjI impI)
  show "map_sum id (\<lambda>(ids, it', w', a'). (ids, w', actor_system a'))
      (applyMutation (it\<lparr>item_addedBodyParts := tracked, item_isActive := active\<rparr>) w a)
     = map_sum id (\<lambda>(ids, it', w', a'). (ids, w', actor_system a')) (applyMutation it w a)"
    by (simp add: applyMutation_def Let_def split: sum.splits prod.splits)
next
  assume h: "item_type it = ''mutation'' \<and> item_bodyModifications it = [m]
       \<and> bm_action m = ''replace''"
  let ?parts = "sys_bodyParts (actor_system a)"
  let ?ids = "snd (applyReplace m ?parts)"
  let ?it1 = "it\<lparr>item_addedBodyParts := ?ids, item_isActive := True\<rparr>"
  let ?a1 = "updateItem ?it1 (setBodyParts (fst (applyReplace m ?parts)) a)"
  let ?parts1 = "sys_bodyParts (actor_system ?a1)"
  let ?ids2 = "snd (applyReplace m ?parts1)"
  let ?it2 = "?it1\<lparr>item_addedBodyParts := ?ids2, item_isActive := True\<rparr>"
  let ?a2 = "updateItem ?it2 (setBodyParts (fst (applyReplace m ?parts1)) ?a1)"
  from h have ap1: "applyMutation it w a = Inr (?ids, ?it1, w, ?a1)"
    by (intro applyMutation_replace) simp_all
  from h have ap2: "applyMutation ?it1 w ?a1 = Inr (?ids2, ?it2, w, ?a2)"
    by (intro applyMutation_replace) simp_all
  have tw: "applyMutationTwice it w a = Inr ((?ids, ?it1, w, ?a1), (?ids2, ?it2, w, ?a2))"
    by (simp add: applyMutationTwice_def ap1 ap2)
  have same: "sys_bodyParts (actor_system ?a2) = sys_bodyParts (actor_system ?a1)"
    by (simp add: applyReplace_twice)
  have keys: "map fst (sys_bodyParts (actor_system ?a1)) = map fst ?parts"
    by (simp add: applyReplace_keys)
  show "\<exists>ids1 it1 a1 ids2 it2 a2.
             applyMutationTwice it w a = Inr ((ids1, it1, w, a1), (ids2, it2, w, a2))
           \<and> sys_bodyParts (actor_system a2) = sys_bodyParts (actor_system a1)
           \<and> map fst (sys_bodyParts (actor_system a1)) = map fst (sys_bodyParts (actor_system a))"
    apply (rule exI[of _ ?ids])
    apply (rule exI[of _ ?it1])
    apply (rule exI[of _ ?a1])
    apply (rule exI[of _ ?ids2])
    apply (rule exI[of _ ?it2])
    apply (rule exI[of _ ?a2])
    apply (intro conjI)
      apply (rule tw)
     apply (rule same)
    apply (rule keys)
    done
qed

text \<open>
  The claws mutation of the catalogue (Hand to BurrowingClaw) applied twice to the example
  creature, and the tail mutation applied to it when the item is already active and tracks
  a part.
\<close>

theorem applyMutation_reapplied_witness:
  "item_type exampleClaws = ''mutation''
   \<and> item_bodyModifications exampleClaws =
       [\<lparr>bm_action = ''replace'', bm_targetType = ''Hand'', bm_newType = ''BurrowingClaw'',
         bm_preserveEquipment = True, bm_parent = None, bm_type = [], bm_variant = None,
         bm_laterality = [], bm_withChildren = [], bm_chimeraOrigin = False\<rparr>]
   \<and> (\<exists>ids1 it1 a1 ids2 it2 a2.
         applyMutationTwice exampleClaws exampleWorld exampleActor =
           Inr ((ids1, it1, exampleWorld, a1), (ids2, it2, exampleWorld, a2))
       \<and> sys_bodyParts (actor_system a2) = sys_bodyParts (actor_system a1)
       \<and> map fst (sys_bodyParts (actor_system a1)) =
           map fst (sys_bodyParts (actor_system exampleActor)))
   \<and> map_sum id (\<lambda>(ids, it', w', a'). (ids, w', actor_system a'))
        (applyMutation (exampleTail\<lparr>item_addedBodyParts := [''hl''], item_isActive := True\<rparr>)
           exampleWorld exampleActor)
      = map_sum id (\<lambda>(ids, it', w', a'). (ids, w', actor_system a'))
          (applyMutation exampleTail exampleWorld exampleActor)
   \<and> map_sum id (\<lambda>(ids, it', w', a'). (ids, map fst (sys_bodyParts (actor_system a'))))
        (applyMutation exampleTail exampleWorld exampleActor)
      = Inr ([''bp_0_0''], [''b'', ''al'', ''hl'', ''ar'', ''hr'', ''bp_0_0''])"
proof -
  let ?m = "\<lparr>bm_action = ''replace'', bm_targetType = ''Hand'', bm_newType = ''BurrowingClaw'',
         bm_preserveEquipment = True, bm_parent = None, bm_type = [], bm_variant = None,
         bm_laterality = [], bm_withChildren = [], bm_chimeraOrigin = False\<rparr>"
  have h1: "item_type exampleClaws = ''mutation''" by code_simp
  have h2: "item_bodyModifications exampleClaws = [?m]" by code_simp
  have h3: "bm_action ?m = ''replace''" by simp
  have a: "\<exists>ids1 it1 a1 ids2 it2 a2.
         applyMutationTwice exampleClaws exampleWorld exampleActor =
           Inr ((ids1, it1, exampleWorld, a1), (ids2, it2, exampleWorld, a2))
       \<and> sys_bodyParts (actor_system a2) = sys_bodyParts (actor_system a1)
       \<and> map fst (sys_bodyParts (actor_system a1)) =
           map fst (sys_bodyParts (actor_system exampleActor))"
    by (rule applyMutation_reapplied
          [where it = exampleClaws and tracked = "[]" and active = False and w = exampleWorld
             and a = exampleActor and m = ?m,
           THEN conjunct2, THEN mp, OF conjI[OF h1 conjI[OF h2 h3]]])
  have b: "map_sum id (\<lambda>(ids, it', w', a'). (ids, w', actor_system a'))
        (applyMutation (exampleTail\<lparr>item_addedBodyParts := [''hl''], item_isActive := True\<rparr>)
           exampleWorld exampleActor)
      = map_sum id (\<lambda>(ids, it', w', a'). (ids, w', actor_system a'))
          (applyMutation exampleTail exampleWorld exampleActor)"
    by (rule applyMutation_reapplied
          [where it = exampleTail and tracked = "[''hl'']" and active = True
             and w = exampleWorld and a = exampleActor and m = ?m,
           THEN conjunct1])
  have c: "map_sum id (\<lambda>(ids, it', w', a'). (ids, map fst (sys_bodyParts (actor_system a'))))
        (applyMutation exampleTail exampleWorld exampleActor)
      = Inr ([''bp_0_0''], [''b'', ''al'', ''hl'', ''ar'', ''hr'', ''bp_0_0''])"
    by code_simp
  show ?thesis
    by (intro conjI) (rule h1 h2 a b c)+
qed

text \<open>
  C7 as the claim words it fails. The tail mutation applied twice to the example creature adds
  a tail each time, under the ids bp_0_0 and bp_0_1, and the item then tracks the second tail
  only.
\<close>

theorem applyMutation_twice_duplicates:
  "(case applyMutationTwice exampleTail exampleWorld exampleActor of
      Inr ((ids1, it1, w1, a1), (ids2, it2, w2, a2)) \<Rightarrow>
        (ids1, ids2, item_addedBodyParts it2,
         map (\<lambda>(k, p). (k, bp_type p)) (sys_bodyParts (actor_system a1)),
         map (\<lambda>(k, p). (k, bp_type p)) (sys_bodyParts (actor_system a2)))
    | Inl e \<Rightarrow> ([], [], [], [], [])) =
   ([''bp_0_0''], [''bp_0_1''], [''bp_0_1''],
    [(''b'', ''Body''), (''al'', ''Arm''), (''hl'', ''Hand''), (''ar'', ''Arm''), (''hr'', ''Hand''),
     (''bp_0_0'', ''Tail'')],
    [(''b'', ''Body''), (''al'', ''Arm''), (''hl'', ''Hand''), (''ar'', ''Arm''), (''hr'', ''Hand''),
     (''bp_0_0'', ''Tail''), (''bp_0_1'', ''Tail'')])"
  by code_simp

text \<open>
  The claws mutation applied twice and then removed. The second application finds no Hand
  left, so the item tracks no part any more, and the removal restores none: both hands stay
  claws.
\<close>

lemma applyMutation_twice_untracked:
  "(case applyMutationTwice exampleClaws exampleWorld exampleActor of
      Inr ((ids1, it1, w1, a1), (ids2, it2, w2, a2)) \<Rightarrow>
        (ids1, ids2, item_addedBodyParts it2,
         map_option (\<lambda>(ids, it3, a3).
                       (ids, map (\<lambda>(k, p). (k, bp_type p)) (sys_bodyParts (actor_system a3))))
           (removeMutation 5 it2 a2))
    | Inl e \<Rightarrow> ([], [], [], None)) =
   ([''hl'', ''hr''], [], [],
    Some ([], [(''b'', ''Body''), (''al'', ''Arm''), (''hl'', ''BurrowingClaw''), (''ar'', ''Arm''),
               (''hr'', ''BurrowingClaw'')]))"
  by code_simp

text \<open>
  C10. A part that holds an equipped item has no natural weapon, whatever the item is and
  whatever mutations are active.
\<close>

theorem getNaturalWeapon_equipped:
  "map_of (sys_bodyParts (actor_system a)) bodyPartId = Some bodyPart \<Longrightarrow>
   bp_equipment bodyPart \<noteq> None \<Longrightarrow> getNaturalWeapon a bodyPartId = None"
  by (simp add: getNaturalWeapon_def)

text \<open>
  On the example creature an active mutation grants a natural weapon to arms: the bare right
  arm has it, the left arm, which wears a bracer (armor, not a weapon), has none.
\<close>

theorem getNaturalWeapon_equipped_witness:
  "map_of (sys_bodyParts (actor_system exampleActor)) ''al'' =
     Some (examplePart ''al'' ''Arm'' (Some ''b'') [''hl''] (Some ''bracer''))
   \<and> bp_equipment (examplePart ''al'' ''Arm'' (Some ''b'') [''hl''] (Some ''bracer'')) \<noteq> None
   \<and> getNaturalWeapon exampleActor ''al'' = None
   \<and> getNaturalWeapon exampleActor ''ar'' =
       Some \<lparr>vw_id = ''natural-spikes-ar'', vw_name = ''Spikes'', vw_type = ''weapon'',
             vw_damage = ''1d4'', vw_pv = 0, vw_weaponType = ''melee''\<rparr>"
proof -
  have a: "map_of (sys_bodyParts (actor_system exampleActor)) ''al'' =
     Some (examplePart ''al'' ''Arm'' (Some ''b'') [''hl''] (Some ''bracer''))"
    by code_simp
  have b: "bp_equipment (examplePart ''al'' ''Arm'' (Some ''b'') [''hl''] (Some ''bracer'')) \<noteq> None"
    by code_simp
  have c: "getNaturalWeapon exampleActor ''ar'' =
       Some \<lparr>vw_id = ''natural-spikes-ar'', vw_name = ''Spikes'', vw_type = ''weapon'',
             vw_damage = ''1d4'', vw_pv = 0, vw_weaponType = ''melee''\<rparr>"
    by code_simp
  show ?thesis
    by (intro conjI) (rule a b getNaturalWeapon_equipped[OF a b] c)+
qed

end
